theory Spec2Isabelle
  imports Main "HOL-Library.List_Lexorder" "HOL-Library.Char_ord"
begin

section \<open>Shared vocabulary: errors and Python string operations\<close>

text \<open>
  The module under verification is the file-opening layer \<^verbatim>\<open>fsspec/core.py\<close>.  The
  repository holds it in compiled form; the Python text quoted before each definition
  is the function as its bytecode, constants and names give it.
  Every \<^verbatim>\<open>raise\<close> of the source is a value of \<open>error\<close>; a function that can raise returns
  \<open>error + 'a\<close> with \<open>Inl\<close> for the exception.  \<open>BackendError\<close> stands for whatever an
  external stream or filesystem object raises; the module never catches it.
\<close>

datatype error =
    ValueError string
  | KeyError string
  | TypeError string
  | AttributeError string
  | AssertionError
  | BackendError string

text \<open>Python's \<^verbatim>\<open>sub in s\<close> for strings: \<open>sub\<close> occurs in \<open>s\<close> as a contiguous block.\<close>

fun contains :: "string \<Rightarrow> string \<Rightarrow> bool" where
  "contains sub [] = (sub = [])"
| "contains sub (c # cs) = (take (length sub) (c # cs) = sub \<or> contains sub cs)"

text \<open>
  Python's \<^verbatim>\<open>s.split(sep, 1)\<close> for a separator that occurs in \<open>s\<close>: the text before
  the first (leftmost) occurrence and the text after it.  When \<open>sep\<close> does not occur
  Python returns the one-element list \<^verbatim>\<open>[s]\<close>; the model then returns \<open>(s, [])\<close>, and
  every caller below guards the call with \<open>contains\<close>, as the source does.
\<close>

fun split_once :: "string \<Rightarrow> string \<Rightarrow> string \<times> string" where
  "split_once sep [] = ([], [])"
| "split_once sep (c # cs) =
     (if take (length sep) (c # cs) = sep then ([], drop (length sep) (c # cs))
      else (case split_once sep cs of (a, b) \<Rightarrow> (c # a, b)))"

text \<open>Python's \<^verbatim>\<open>s.count(c)\<close> and \<^verbatim>\<open>s.replace(c, new)\<close> for a one-character \<open>c\<close>.\<close>

definition count_char :: "char \<Rightarrow> string \<Rightarrow> nat" where
  "count_char c s = length (filter (\<lambda>x. x = c) s)"

definition replace_char :: "char \<Rightarrow> string \<Rightarrow> string \<Rightarrow> string" where
  "replace_char c new s = concat (map (\<lambda>x. if x = c then new else [x]) s)"

section \<open>Protocol parsing\<close>

text \<open>
  \<^verbatim>\<open>
  def split_protocol(urlpath):
      urlpath = stringify_path(urlpath)
      if "://" in urlpath:
          protocol, path = urlpath.split("://", 1)
          if len(protocol) > 1:
              return protocol, path
      return None, urlpath
  \<close>
  \<^verbatim>\<open>stringify_path\<close> is the identity on strings, which is the input type of the model.
\<close>

definition split_protocol :: "string \<Rightarrow> string option \<times> string" where
  "split_protocol urlpath =
     (if contains ''://'' urlpath then
        (case split_once ''://'' urlpath of
           (protocol, path) \<Rightarrow>
             if length protocol > 1 then (Some protocol, path) else (None, urlpath))
      else (None, urlpath))"

section \<open>Compression resolution\<close>

text \<open>
  \<^verbatim>\<open>
  def get_compression(urlpath, compression):
      if compression == "infer":
          compression = infer_compression(urlpath)
      if compression is not None and compression not in compr:
          raise ValueError("Compression type %s not supported" % compression)
      return compression
  \<close>
  \<^verbatim>\<open>infer_compression\<close> (from the utilities module) and the registry \<^verbatim>\<open>compr\<close> (from the
  compression module) are parameters; of the registry only its key set matters here.
\<close>

definition get_compression ::
  "(string \<Rightarrow> string option) \<Rightarrow> (string \<rightharpoonup> 'c) \<Rightarrow> string \<Rightarrow> string option
   \<Rightarrow> error + string option" where
  "get_compression infer_compression compr urlpath compression =
     (let compression' =
            (if compression = Some ''infer'' then infer_compression urlpath else compression)
      in case compression' of
           None \<Rightarrow> Inr None
         | Some c \<Rightarrow>
             if compr c = None
             then Inl (ValueError (''Compression type '' @ c @ '' not supported''))
             else Inr (Some c))"

text \<open>
  Modelled from the spec: the filename suffix that \<^verbatim>\<open>infer_compression\<close> looks up.  The
  function lives in the utilities module, which is not part of the sources at hand; the
  specification describes it as a lookup of the path's filename suffix against a known
  extension table.  The suffix is the text after the last dot of the path, and a path
  without a dot has no suffix.
\<close>

definition filename_suffix :: "string \<Rightarrow> string option" where
  "filename_suffix p =
     (if CHR ''.'' \<in> set p then Some (rev (takeWhile (\<lambda>c. c \<noteq> CHR ''.'') (rev p))) else None)"

text \<open>
  Modelled from the spec: \<^verbatim>\<open>infer_compression\<close> of the utilities module, the lookup of the
  path's filename suffix in the extension table.  The table itself is a parameter.
\<close>

definition infer_compression :: "(string \<rightharpoonup> string) \<Rightarrow> string \<Rightarrow> string option" where
  "infer_compression extension_table filename =
     (case filename_suffix filename of None \<Rightarrow> None | Some ext \<Rightarrow> extension_table ext)"

section \<open>The deferred file wrapper \<^verbatim>\<open>OpenFile\<close>\<close>

text \<open>
  Stream objects (\<open>'f\<close>), filesystem handles (\<open>'fs\<close>) and the outside world they live in
  (\<open>'w\<close>) belong to the backends, so every call into them is a field of the environment
  below.  Each call takes the world and returns either the exception it raised or its
  value, together with the new world.
  \<^item> \<open>fs_open fs path mode\<close> is \<^verbatim>\<open>fs.open(path, mode=mode)\<close>;
  \<^item> \<open>compr\<close> is the codec registry; \<open>compress f m\<close> for an entry \<open>compress\<close> is
    \<^verbatim>\<open>compr[name](f, mode=m)\<close>;
  \<^item> \<open>text_io_wrapper f encoding errors newline\<close> is \<^verbatim>\<open>io.TextIOWrapper(f, ...)\<close>;
  \<^item> \<open>f_closed f\<close> reads \<^verbatim>\<open>f.closed\<close>; \<open>f_flush\<close> and \<open>f_close\<close> are \<^verbatim>\<open>f.flush()\<close> and
    \<^verbatim>\<open>f.close()\<close>.
\<close>

record ('fs, 'f, 'w) env =
  infer_compr :: "string \<Rightarrow> string option"
  compr :: "string \<rightharpoonup> ('f \<Rightarrow> string \<Rightarrow> 'w \<Rightarrow> (error + 'f) \<times> 'w)"
  fs_open :: "'fs \<Rightarrow> string \<Rightarrow> string \<Rightarrow> 'w \<Rightarrow> (error + 'f) \<times> 'w"
  text_io_wrapper ::
    "'f \<Rightarrow> string option \<Rightarrow> string option \<Rightarrow> string option \<Rightarrow> 'w \<Rightarrow> (error + 'f) \<times> 'w"
  f_closed :: "'f \<Rightarrow> 'w \<Rightarrow> bool"
  f_flush :: "'f \<Rightarrow> 'w \<Rightarrow> (error + unit) \<times> 'w"
  f_close :: "'f \<Rightarrow> 'w \<Rightarrow> (error + unit) \<times> 'w"

text \<open>The attributes of an \<^verbatim>\<open>OpenFile\<close>; \<open>of_fobjects\<close> is the list \<^verbatim>\<open>self.fobjects\<close>.\<close>

record ('fs, 'f) OpenFile =
  of_fs :: 'fs
  of_path :: string
  of_mode :: string
  of_compression :: "string option"
  of_encoding :: "string option"
  of_errors :: "string option"
  of_newline :: "string option"
  of_fobjects :: "'f list"

text \<open>
  \<^verbatim>\<open>
  def __init__(self, fs, path, mode="rb", compression=None, encoding=None,
               errors=None, newline=None):
      self.fs = fs; self.path = path; self.mode = mode
      self.compression = get_compression(path, compression)
      self.encoding = encoding; self.errors = errors; self.newline = newline
      self.fobjects = []
  \<close>
  The constructor has no access to the world: it calls nothing of the backends.
\<close>

definition OpenFile_init ::
  "('fs, 'f, 'w) env \<Rightarrow> 'fs \<Rightarrow> string \<Rightarrow> string \<Rightarrow> string option \<Rightarrow> string option
   \<Rightarrow> string option \<Rightarrow> string option \<Rightarrow> error + ('fs, 'f) OpenFile" where
  "OpenFile_init E fs path mode compression encoding errors newline =
     (case get_compression (infer_compr E) (compr E) path compression of
        Inl e \<Rightarrow> Inl e
      | Inr c \<Rightarrow>
          Inr \<lparr>of_fs = fs, of_path = path, of_mode = mode, of_compression = c,
               of_encoding = encoding, of_errors = errors, of_newline = newline,
               of_fobjects = []\<rparr>)"

text \<open>
  \<^verbatim>\<open>
  def __reduce__(self):
      return (OpenFile, (self.fs, self.path, self.mode, self.compression,
                         self.encoding, self.errors, self.newline))
  \<close>
  Unpickling calls the first component on the second; \<open>reconstruct\<close> is that call.
\<close>

definition OpenFile_reduce ::
  "('fs, 'f) OpenFile \<Rightarrow>
   'fs \<times> string \<times> string \<times> string option \<times> string option \<times> string option \<times> string option" where
  "OpenFile_reduce self =
     (of_fs self, of_path self, of_mode self, of_compression self,
      of_encoding self, of_errors self, of_newline self)"

definition reconstruct ::
  "('fs, 'f, 'w) env \<Rightarrow>
   'fs \<times> string \<times> string \<times> string option \<times> string option \<times> string option \<times> string option
   \<Rightarrow> error + ('fs, 'f) OpenFile" where
  "reconstruct E args =
     (case args of (fs, path, mode, compression, encoding, errors, newline) \<Rightarrow>
        OpenFile_init E fs path mode compression encoding errors newline)"

text \<open>
  \<^verbatim>\<open>
  def __enter__(self):
      mode = self.mode.replace("t", "").replace("b", "") + "b"
      f = self.fs.open(self.path, mode=mode)
      self.fobjects = [f]
      if self.compression is not None:
          compress = compr[self.compression]
          f = compress(f, mode=mode[0])
          self.fobjects.append(f)
      if "b" not in self.mode:
          f = io.TextIOWrapper(f, encoding=self.encoding, errors=self.errors,
                               newline=self.newline)
          self.fobjects.append(f)
      return self.fobjects[-1]
  \<close>
  The result is the returned stream or the exception, the wrapper as the call left it,
  and the world.  \<open>binary_mode\<close> is the first line.  The local \<open>mode\<close> ends in \<open>b\<close>, so
  \<^verbatim>\<open>mode[0]\<close> is \<open>take 1 mode\<close>; the list is not empty at the return, so
  \<^verbatim>\<open>self.fobjects[-1]\<close> is \<open>last\<close>.
\<close>

definition binary_mode :: "string \<Rightarrow> string" where
  "binary_mode mode =
     filter (\<lambda>c. c \<noteq> CHR ''b'') (filter (\<lambda>c. c \<noteq> CHR ''t'') mode) @ ''b''"

definition OpenFile_enter ::
  "('fs, 'f, 'w) env \<Rightarrow> ('fs, 'f) OpenFile \<Rightarrow> 'w
   \<Rightarrow> (error + 'f) \<times> ('fs, 'f) OpenFile \<times> 'w" where
  "OpenFile_enter E self w =
     (let mode = binary_mode (of_mode self)
      in case fs_open E (of_fs self) (of_path self) mode w of
           (Inl e, w1) \<Rightarrow> (Inl e, self, w1)
         | (Inr f, w1) \<Rightarrow>
             (let self1 = self\<lparr>of_fobjects := [f]\<rparr>;
                  step2 =
                    (case of_compression self1 of
                       None \<Rightarrow> (Inr f, self1, w1)
                     | Some c \<Rightarrow>
                         (case compr E c of
                            None \<Rightarrow> (Inl (KeyError c), self1, w1)
                          | Some compress \<Rightarrow>
                              (case compress f (take 1 mode) w1 of
                                 (Inl e, w2) \<Rightarrow> (Inl e, self1, w2)
                               | (Inr f2, w2) \<Rightarrow>
                                   (Inr f2, self1\<lparr>of_fobjects := of_fobjects self1 @ [f2]\<rparr>, w2))))
              in case step2 of
                   (Inl e, self2, w2) \<Rightarrow> (Inl e, self2, w2)
                 | (Inr f2, self2, w2) \<Rightarrow>
                     if CHR ''b'' \<notin> set (of_mode self2) then
                       (case text_io_wrapper E f2 (of_encoding self2) (of_errors self2)
                               (of_newline self2) w2 of
                          (Inl e, w3) \<Rightarrow> (Inl e, self2, w3)
                        | (Inr f3, w3) \<Rightarrow>
                            (let self3 = self2\<lparr>of_fobjects := of_fobjects self2 @ [f3]\<rparr>
                             in (Inr (last (of_fobjects self3)), self3, w3)))
                     else (Inr (last (of_fobjects self2)), self2, w2)))"

text \<open>
  \<^verbatim>\<open>
  def _close(fobjects, mode):
      for f in reversed(fobjects):
          if "r" not in mode and not f.closed:
              f.flush()
          f.close()
      fobjects.clear()
  \<close>
  \<open>close_one\<close> is the body of the \<^verbatim>\<open>for\<close> loop and \<open>close_loop\<close> the loop over the already
  reversed list.  Besides the outcome and the world they return the calls made on the
  streams, in the order they were made; an exception of \<^verbatim>\<open>flush\<close> or \<^verbatim>\<open>close\<close> ends the
  loop, and then the list is not cleared.  \<open>module_close\<close> is \<^verbatim>\<open>_close\<close>: it returns the
  calls, the outcome, the list \<^verbatim>\<open>fobjects\<close> as the call left it, and the world.
\<close>

datatype 'f call = Flush 'f | Close 'f

definition close_one ::
  "('fs, 'f, 'w) env \<Rightarrow> string \<Rightarrow> 'f \<Rightarrow> 'w \<Rightarrow> 'f call list \<times> (error + unit) \<times> 'w" where
  "close_one E mode f w =
     (case (if CHR ''r'' \<notin> set mode \<and> \<not> f_closed E f w
            then (case f_flush E f w of (r, w1) \<Rightarrow> ([Flush f], r, w1))
            else ([], Inr (), w)) of
        (calls1, Inl e, w1) \<Rightarrow> (calls1, Inl e, w1)
      | (calls1, Inr u, w1) \<Rightarrow>
          (case f_close E f w1 of (r, w2) \<Rightarrow> (calls1 @ [Close f], r, w2)))"

fun close_loop ::
  "('fs, 'f, 'w) env \<Rightarrow> 'f list \<Rightarrow> string \<Rightarrow> 'w \<Rightarrow> 'f call list \<times> (error + unit) \<times> 'w" where
  "close_loop E [] mode w = ([], Inr (), w)"
| "close_loop E (f # fs) mode w =
     (case close_one E mode f w of
        (calls1, Inl e, w1) \<Rightarrow> (calls1, Inl e, w1)
      | (calls1, Inr u, w1) \<Rightarrow>
          (case close_loop E fs mode w1 of (calls2, r, w2) \<Rightarrow> (calls1 @ calls2, r, w2)))"

definition module_close ::
  "('fs, 'f, 'w) env \<Rightarrow> 'f list \<Rightarrow> string \<Rightarrow> 'w
   \<Rightarrow> 'f call list \<times> (error + unit) \<times> 'f list \<times> 'w" where
  "module_close E fobjects mode w =
     (case close_loop E (rev fobjects) mode w of
        (calls, Inl e, w') \<Rightarrow> (calls, Inl e, fobjects, w')
      | (calls, Inr u, w') \<Rightarrow> (calls, Inr (), [], w'))"

text \<open>
  \<^verbatim>\<open>
  def close(self):
      _close(self.fobjects, self.mode)

  def __exit__(self, *args):
      self.close()
  \<close>
\<close>

definition OpenFile_close ::
  "('fs, 'f, 'w) env \<Rightarrow> ('fs, 'f) OpenFile \<Rightarrow> 'w
   \<Rightarrow> 'f call list \<times> (error + unit) \<times> ('fs, 'f) OpenFile \<times> 'w" where
  "OpenFile_close E self w =
     (case module_close E (of_fobjects self) (of_mode self) w of
        (calls, r, fobjects', w') \<Rightarrow> (calls, r, self\<lparr>of_fobjects := fobjects'\<rparr>, w'))"

definition OpenFile_exit ::
  "('fs, 'f, 'w) env \<Rightarrow> ('fs, 'f) OpenFile \<Rightarrow> 'w
   \<Rightarrow> 'f call list \<times> (error + unit) \<times> ('fs, 'f) OpenFile \<times> 'w" where
  "OpenFile_exit E self w = OpenFile_close E self w"

text \<open>The streams on which \<^verbatim>\<open>close\<close> was called, and those flushed, in call order.\<close>

fun closes :: "'f call list \<Rightarrow> 'f list" where
  "closes [] = []"
| "closes (Close f # cs) = f # closes cs"
| "closes (Flush f # cs) = closes cs"

fun flushes :: "'f call list \<Rightarrow> 'f list" where
  "flushes [] = []"
| "flushes (Flush f # cs) = f # flushes cs"
| "flushes (Close f # cs) = flushes cs"

section \<open>Path expansion\<close>

text \<open>
  \<^verbatim>\<open>os.path.join(a, b)\<close> of the standard library, in its POSIX form and for two arguments: a
  second component that starts with the separator replaces the first; otherwise the two
  are put together with one separator between them, unless the first is empty or already
  ends with it.
\<close>

definition path_join :: "string \<Rightarrow> string \<Rightarrow> string" where
  "path_join a b =
     (if take 1 b = ''/'' then b
      else if a = [] \<or> last a = CHR ''/'' then a @ b
      else a @ ''/'' @ b)"

text \<open>
  \<^verbatim>\<open>
  def _expand_paths(path, name_function, num):
      if isinstance(path, str):
          if path.count("*") > 1:
              raise ValueError("Output path spec must contain exactly one '*'.")
          elif "*" not in path:
              path = os.path.join(path, "*.part")
          if name_function is None:
              name_function = build_name_function(num - 1)
          paths = [path.replace("*", name_function(i)) for i in range(num)]
          if paths != sorted(paths):
              logger.warning(...)
      elif isinstance(path, (tuple, list)):
          assert len(path) == num
          paths = list(path)
      else:
          raise ValueError("Path should be either ...")
      return paths
  \<close>
  The argument is a string, a sequence, or something else.  \<^verbatim>\<open>build_name_function\<close> (from
  the utilities module) is a parameter.  The warning is written to the log and changes
  neither the result nor the control flow, so the model leaves it out.  \<^verbatim>\<open>range(num)\<close> is
  the integers from \<open>0\<close> to \<open>num - 1\<close>, none when \<open>num \<le> 0\<close>.
\<close>

datatype pathspec = PathStr string | PathSeq "string list" | PathOther

definition expand_paths ::
  "(int \<Rightarrow> int \<Rightarrow> string) \<Rightarrow> pathspec \<Rightarrow> (int \<Rightarrow> string) option \<Rightarrow> int
   \<Rightarrow> error + string list" where
  "expand_paths build_name_function path name_function num =
     (case path of
        PathStr p \<Rightarrow>
          if count_char CHR ''*'' p > 1
          then Inl (ValueError ''Output path spec must contain exactly one '*'.'')
          else
            (let p' = (if CHR ''*'' \<notin> set p then path_join p ''*.part'' else p);
                 name_function' =
                   (case name_function of
                      None \<Rightarrow> build_name_function (num - 1)
                    | Some g \<Rightarrow> g)
             in Inr (map (\<lambda>i. replace_char CHR ''*'' (name_function' i) p') [0..num - 1]))
      | PathSeq ps \<Rightarrow> if int (length ps) = num then Inr ps else Inl AssertionError
      | PathOther \<Rightarrow>
          Inl (ValueError
            (''Path should be either'' @ [CHR 0x0A] @
             ''1. A list of paths: ['foo.json', 'bar.json', ...]'' @ [CHR 0x0A] @
             ''2. A directory: 'foo/'' @ [CHR 0x0A] @
             ''3. A path with a '*' in it: 'foo.*.json'' @ [CHR 0x27])))"

text \<open>
  \<^verbatim>\<open>
  def expand_paths_if_needed(paths, mode, num, fs, name_function):
      expanded_paths = []
      paths = list(paths)
      if "w" in mode and sum([1 for p in paths if "*" in p]) > 1:
          raise ValueError("When writing data, only one filename mask can be specified.")
      elif "w" in mode:
          num = max(num, len(paths))
      for curr_path in paths:
          if "*" in curr_path:
              if "w" in mode:
                  expanded_paths.extend(_expand_paths(curr_path, name_function, num))
              else:
                  expanded_paths.extend(fs.glob(curr_path))
          else:
              expanded_paths.append(curr_path)
      if "w" in mode and len(expanded_paths) > num:
          expanded_paths = expanded_paths[:num]
      return expanded_paths
  \<close>
  \<open>expand_loop\<close> is the \<^verbatim>\<open>for\<close> loop, with \<^verbatim>\<open>expanded_paths\<close> as accumulator; \<open>glob\<close> is
  \<^verbatim>\<open>fs.glob\<close> of the filesystem at hand.  The slice \<^verbatim>\<open>[:num]\<close> is taken only when
  \<open>num\<close> is below the length, and in write mode \<open>num\<close> is not negative there, so it is
  \<open>take (nat num)\<close>.
\<close>

fun expand_loop ::
  "(int \<Rightarrow> int \<Rightarrow> string) \<Rightarrow> (string \<Rightarrow> error + string list) \<Rightarrow> string
   \<Rightarrow> (int \<Rightarrow> string) option \<Rightarrow> int \<Rightarrow> string list \<Rightarrow> string list
   \<Rightarrow> error + string list" where
  "expand_loop bnf glob mode name_function num [] expanded_paths = Inr expanded_paths"
| "expand_loop bnf glob mode name_function num (curr_path # rest) expanded_paths =
     (if CHR ''*'' \<in> set curr_path then
        (if CHR ''w'' \<in> set mode then
           (case expand_paths bnf (PathStr curr_path) name_function num of
              Inl e \<Rightarrow> Inl e
            | Inr ps \<Rightarrow>
                expand_loop bnf glob mode name_function num rest (expanded_paths @ ps))
         else
           (case glob curr_path of
              Inl e \<Rightarrow> Inl e
            | Inr ps \<Rightarrow>
                expand_loop bnf glob mode name_function num rest (expanded_paths @ ps)))
      else expand_loop bnf glob mode name_function num rest (expanded_paths @ [curr_path]))"

definition expand_paths_if_needed ::
  "(int \<Rightarrow> int \<Rightarrow> string) \<Rightarrow> (string \<Rightarrow> error + string list) \<Rightarrow> string list \<Rightarrow> string
   \<Rightarrow> int \<Rightarrow> (int \<Rightarrow> string) option \<Rightarrow> error + string list" where
  "expand_paths_if_needed bnf glob paths mode num name_function =
     (if CHR ''w'' \<in> set mode \<and> length (filter (\<lambda>p. CHR ''*'' \<in> set p) paths) > 1
      then Inl (ValueError ''When writing data, only one filename mask can be specified.'')
      else
        (let num' = (if CHR ''w'' \<in> set mode then max num (int (length paths)) else num)
         in case expand_loop bnf glob mode name_function num' paths [] of
              Inl e \<Rightarrow> Inl e
            | Inr expanded_paths \<Rightarrow>
                if CHR ''w'' \<in> set mode \<and> int (length expanded_paths) > num'
                then Inr (take (nat num') expanded_paths)
                else Inr expanded_paths))"

section \<open>Chain resolution\<close>

text \<open>
  Filesystem classes (\<open>'cls\<close>), filesystem objects (\<open>'fs\<close>), option dictionaries (\<open>'o\<close>)
  and tokens (\<open>'tok\<close>) belong to the registry and the backends.  Two dictionaries are
  equal in Python when they hold the same items, which is equality on \<open>'o\<close>.  The
  record below lists every call the resolver makes on them:
  \<^item> \<open>get_filesystem_class protocol\<close>, the registry lookup, which raises on an unknown
    protocol and instantiates nothing;
  \<^item> \<open>get_kwargs_from_urls cls url\<close> and \<open>cls_strip_protocol cls url\<close>, the class methods
    \<^verbatim>\<open>cls._get_kwargs_from_urls(url)\<close> and \<^verbatim>\<open>cls._strip_protocol(url)\<close>;
  \<^item> \<open>instantiate cls options\<close> is \<^verbatim>\<open>cls(**options)\<close> and \<open>filesystem protocol options\<close> is
    the registry's \<^verbatim>\<open>filesystem(protocol, **options)\<close>: the two calls that create a
    filesystem object;
  \<^item> \<open>update_storage_options options inherited\<close>, from the utilities module, which
    returns the updated \<open>options\<close> or raises on a collision;
  \<^item> \<open>fs_strip_protocol\<close>, \<open>fs_glob\<close>, \<open>fs_isdir\<close>, \<open>fs_token\<close>: the methods and the token
    of a filesystem object;
  \<^item> \<open>build_name_function\<close>, from the utilities module;
  \<^item> the dictionary operations: \<open>empty_dict\<close> is \<^verbatim>\<open>{}\<close>, \<open>dict_get d k\<close> is
    \<^verbatim>\<open>d.get(k, {})\<close>, \<open>dict_merge a b\<close> is \<^verbatim>\<open>dict(**a, **b)\<close> (which raises on a key
    given twice), \<open>dict_has_key d k\<close> is \<^verbatim>\<open>k in d\<close>, \<open>dict_set d k v\<close> is \<^verbatim>\<open>d[k] = v\<close>.
\<close>

datatype urls = One "string option" | Many "string option list"

datatype 'o item = ItemDict 'o | ItemStr string | ItemUrls urls

record ('cls, 'fs, 'o, 'tok) registry =
  get_filesystem_class :: "string option \<Rightarrow> error + 'cls"
  get_kwargs_from_urls :: "'cls \<Rightarrow> string \<Rightarrow> 'o"
  cls_strip_protocol :: "'cls \<Rightarrow> string \<Rightarrow> string"
  instantiate :: "'cls \<Rightarrow> 'o \<Rightarrow> error + 'fs"
  filesystem :: "string \<Rightarrow> 'o \<Rightarrow> error + 'fs"
  update_storage_options :: "'o \<Rightarrow> 'o option \<Rightarrow> error + 'o"
  fs_strip_protocol :: "'fs \<Rightarrow> string option \<Rightarrow> error + string"
  fs_glob :: "'fs \<Rightarrow> string \<Rightarrow> error + string list"
  fs_isdir :: "'fs \<Rightarrow> string \<Rightarrow> bool"
  fs_token :: "'fs \<Rightarrow> 'tok"
  build_name_function :: "int \<Rightarrow> int \<Rightarrow> string"
  empty_dict :: 'o
  dict_get :: "'o \<Rightarrow> string \<Rightarrow> 'o"
  dict_merge :: "'o \<Rightarrow> 'o \<Rightarrow> error + 'o"
  dict_has_key :: "'o \<Rightarrow> string \<Rightarrow> bool"
  dict_set :: "'o \<Rightarrow> string \<Rightarrow> 'o item \<Rightarrow> 'o"

text \<open>
  Python's \<^verbatim>\<open>s.split(sep)\<close> for a non-empty separator: the pieces between the
  occurrences of \<open>sep\<close>, found from the left without overlap.  \<open>cur\<close> is the piece being
  read.
\<close>

fun split_all :: "string \<Rightarrow> string \<Rightarrow> string \<Rightarrow> string list" where
  "split_all sep cur [] = [cur]"
| "split_all sep cur (c # cs) =
     (if sep \<noteq> [] \<and> take (length sep) (c # cs) = sep
      then cur # split_all sep [] (drop (length sep) (c # cs))
      else split_all sep (cur @ [c]) cs)"

text \<open>
  The pattern \<^verbatim>\<open>.*[^a-z]+.*\<close> matches from the start of a string exactly when the string
  has a character outside \<^verbatim>\<open>a-z\<close> (a line break is such a character, so the two \<^verbatim>\<open>.*\<close>
  never have to cross one).
\<close>

definition x_match :: "string \<Rightarrow> bool" where
  "x_match p = (\<exists>c \<in> set p. \<not> (CHR ''a'' \<le> c \<and> c \<le> CHR ''z''))"

text \<open>
  \<^verbatim>\<open>zip(*bits)\<close>: the columns of a list of rows, as many as the shortest row has; none
  for no rows.
\<close>

definition zip_star :: "'a list list \<Rightarrow> 'a list list" where
  "zip_star rows =
     (case rows of
        [] \<Rightarrow> []
      | r # rs \<Rightarrow>
          map (\<lambda>i. map (\<lambda>row. row ! i) rows) [0..<foldr min (map length rs) (length r)])"

text \<open>
  \<^verbatim>\<open>
  def _un_chain(path, kwargs):
      if isinstance(path, (tuple, list)):
          bits = [_un_chain(p, kwargs) for p in path]
          out = []
          for pbit in zip(*bits):
              paths, protocols, kwargs = zip(*pbit)
              if len(set(protocols)) > 1:
                  raise ValueError("Protocol mismatch in URL chain")
              if len(set(paths)) == 1:
                  paths = paths[0]
              else:
                  paths = list(paths)
              out.append([paths, protocols[0], kwargs[0]])
          return out
      x = re.compile(".*[^a-z]+.*")
      bits = (
          [p if "://" in p or x.match(p) else p + "://" for p in path.split("::")]
          if "::" in path else [path]
      )
      if len(bits) < 2:
          return []
      out = []
      previous_bit = None
      for bit in reversed(bits):
          protocol = split_protocol(bit)[0] or "file"
          cls = get_filesystem_class(protocol)
          extra_kwargs = cls._get_kwargs_from_urls(bit)
          kws = kwargs.get(protocol, {})
          kw = dict(**extra_kwargs, **kws)
          bit = cls._strip_protocol(bit)
          if (protocol in {"blockcache", "filecache", "simplecache"}
                  and "target_protocol" not in kw):
              bit = previous_bit
          out.append((bit, protocol, kw))
          previous_bit = bit
      out = list(reversed(out))
      return out
  \<close>
  A chain entry is the URL (or, for a list of inputs, the URLs), the protocol and the
  options of one layer.  \<open>un_chain_loop\<close> (with \<open>this_bit\<close> for the loop variable and
  \<open>new_bit\<close> for its value after the loop body) is the second \<^verbatim>\<open>for\<close> loop, \<open>un_chain_str\<close> the
  part of the function for one string, \<open>un_chain_columns\<close> the first \<^verbatim>\<open>for\<close> loop and
  \<open>un_chain_seq\<close> the part for a list or tuple.
\<close>

type_synonym 'o chain_entry = "urls \<times> string \<times> 'o"

fun un_chain_loop ::
  "('cls, 'fs, 'o, 'tok) registry \<Rightarrow> 'o \<Rightarrow> string list \<Rightarrow> string option
   \<Rightarrow> 'o chain_entry list \<Rightarrow> error + 'o chain_entry list" where
  "un_chain_loop R kwargs [] previous_bit out = Inr out"
| "un_chain_loop R kwargs (this_bit # rest) previous_bit out =
     (let protocol =
            (case fst (split_protocol this_bit) of
               None \<Rightarrow> ''file''
             | Some p \<Rightarrow> if p = [] then ''file'' else p)
      in case get_filesystem_class R (Some protocol) of
           Inl e \<Rightarrow> Inl e
         | Inr cls \<Rightarrow>
             (let extra_kwargs = get_kwargs_from_urls R cls this_bit;
                  kws = dict_get R kwargs protocol
              in case dict_merge R extra_kwargs kws of
                   Inl e \<Rightarrow> Inl e
                 | Inr kw \<Rightarrow>
                     (let new_bit =
                            (if protocol \<in> set [''blockcache'', ''filecache'', ''simplecache'']
                                \<and> \<not> dict_has_key R kw ''target_protocol''
                             then previous_bit
                             else Some (cls_strip_protocol R cls this_bit))
                      in un_chain_loop R kwargs rest new_bit (out @ [(One new_bit, protocol, kw)]))))"

definition un_chain_str ::
  "('cls, 'fs, 'o, 'tok) registry \<Rightarrow> string \<Rightarrow> 'o \<Rightarrow> error + 'o chain_entry list" where
  "un_chain_str R path kwargs =
     (let bits =
            (if contains ''::'' path
             then map (\<lambda>p. if contains ''://'' p \<or> x_match p then p else p @ ''://'')
                    (split_all ''::'' [] path)
             else [path])
      in if length bits < 2 then Inr []
         else
           (case un_chain_loop R kwargs (rev bits) None [] of
              Inl e \<Rightarrow> Inl e
            | Inr out \<Rightarrow> Inr (rev out)))"

text \<open>
  A list comprehension whose element expressions can raise: \<open>collect\<close> gives the list of
  the values, or the first exception.  \<open>the_url\<close> reads the URL of a chain entry made for
  one string.
\<close>

fun collect :: "(error + 'a) list \<Rightarrow> error + 'a list" where
  "collect [] = Inr []"
| "collect (Inl e # rs) = Inl e"
| "collect (Inr x # rs) = (case collect rs of Inl e \<Rightarrow> Inl e | Inr xs \<Rightarrow> Inr (x # xs))"

fun the_url :: "urls \<Rightarrow> string option" where
  "the_url (One u) = u"
| "the_url (Many us) = None"

fun un_chain_columns :: "'o chain_entry list list \<Rightarrow> error + 'o chain_entry list" where
  "un_chain_columns [] = Inr []"
| "un_chain_columns (pbit # rest) =
     (let paths = map (\<lambda>e. the_url (fst e)) pbit;
          protocols = map (\<lambda>e. fst (snd e)) pbit;
          kwargs = map (\<lambda>e. snd (snd e)) pbit
      in if length (remdups protocols) > 1
         then Inl (ValueError ''Protocol mismatch in URL chain'')
         else
           (let paths' = (if length (remdups paths) = 1 then One (hd paths) else Many paths)
            in case un_chain_columns rest of
                 Inl e \<Rightarrow> Inl e
               | Inr out \<Rightarrow> Inr ((paths', hd protocols, hd kwargs) # out)))"

definition un_chain_seq ::
  "('cls, 'fs, 'o, 'tok) registry \<Rightarrow> string list \<Rightarrow> 'o \<Rightarrow> error + 'o chain_entry list" where
  "un_chain_seq R path kwargs =
     (case collect (map (\<lambda>p. un_chain_str R p kwargs) path) of
        Inl e \<Rightarrow> Inl e
      | Inr bits \<Rightarrow> un_chain_columns (zip_star bits))"

text \<open>
  \<^verbatim>\<open>
  def get_fs_token_paths(urlpath, mode="rb", num=1, name_function=None,
                         storage_options=None, protocol=None, expand=True):
      if isinstance(urlpath, (list, tuple, set)):
          if not urlpath:
              raise ValueError("empty urlpath sequence")
          urlpath = [stringify_path(u) for u in urlpath]
      else:
          urlpath = stringify_path(urlpath)
      chain = _un_chain(urlpath, storage_options or {})
      if len(chain) > 1:
          inkwargs = {}
          for i, ch in enumerate(reversed(chain)):
              urls, nested_protocol, kw = ch
              if i == len(chain) - 1:
                  inkwargs = dict(**kw, **inkwargs)
                  continue
              inkwargs["target_options"] = dict(**kw, **inkwargs)
              inkwargs["target_protocol"] = nested_protocol
              inkwargs["fo"] = urls
          paths, protocol, _ = chain[0]
          fs = filesystem(protocol, **inkwargs)
          if isinstance(paths, (list, tuple, set)):
              paths = [fs._strip_protocol(u) for u in paths]
          else:
              paths = fs._strip_protocol(paths)
      else:
          if isinstance(urlpath, (list, tuple, set)):
              protocols, paths = zip(*map(split_protocol, urlpath))
              if protocol is None:
                  protocol = protocols[0]
                  if not all(p == protocol for p in protocols):
                      raise ValueError("When specifying a list of paths, all paths must "
                                       "share the same protocol")
              cls = get_filesystem_class(protocol)
              optionss = list(map(cls._get_kwargs_from_urls, urlpath))
              paths = [cls._strip_protocol(u) for u in urlpath]
              options = optionss[0]
              if not all(o == options for o in optionss):
                  raise ValueError("When specifying a list of paths, all paths must "
                                   "share the same file-system options")
              update_storage_options(options, storage_options)
              fs = cls(**options)
          else:
              protocols = split_protocol(urlpath)[0]
              protocol = protocol or protocols
              cls = get_filesystem_class(protocol)
              options = cls._get_kwargs_from_urls(urlpath)
              paths = cls._strip_protocol(urlpath)
              update_storage_options(options, storage_options)
              fs = cls(**options)
      if isinstance(paths, (list, tuple, set)):
          paths = expand_paths_if_needed(paths, mode, num, fs, name_function)
      else:
          if "w" in mode and expand:
              paths = _expand_paths(paths, name_function, num)
          elif "*" in paths:
              paths = [f for f in sorted(fs.glob(paths)) if not fs.isdir(f)]
          else:
              paths = [paths]
      return fs, fs._fs_token, paths
  \<close>
  The input is one string or a sequence of strings; a set is turned into a list by the
  first lines like a list or a tuple.  The function is modelled in the pieces the source
  has: \<open>nest_options\<close> is the loop that builds \<^verbatim>\<open>inkwargs\<close> (over the reversed chain, whose
  last element is the one with \<^verbatim>\<open>i == len(chain) - 1\<close>), \<open>resolve_chained\<close> the branch for a
  chain, \<open>resolve_seq\<close> and \<open>resolve_str\<close> the two branches without a chain, and
  \<open>expand_final\<close> the expansion at the end.  Each piece that can create a filesystem
  returns, before its outcome, the list of the protocol and options of every filesystem
  object whose creation was started, so that an error raised before any creation shows
  as an empty list.
\<close>

datatype urlpath = UrlStr string | UrlSeq "string list"

datatype resolved_paths = SinglePath string | PathList "string list"

fun nest_options ::
  "('cls, 'fs, 'o, 'tok) registry \<Rightarrow> 'o chain_entry list \<Rightarrow> 'o \<Rightarrow> error + 'o" where
  "nest_options R [] inkwargs = Inr inkwargs"
| "nest_options R [(urls, nested_protocol, kw)] inkwargs = dict_merge R kw inkwargs"
| "nest_options R ((urls, nested_protocol, kw) # ch # rest) inkwargs =
     (case dict_merge R kw inkwargs of
        Inl e \<Rightarrow> Inl e
      | Inr target_options \<Rightarrow>
          nest_options R (ch # rest)
            (dict_set R
               (dict_set R
                  (dict_set R inkwargs ''target_options'' (ItemDict target_options))
                  ''target_protocol'' (ItemStr nested_protocol))
               ''fo'' (ItemUrls urls)))"

definition resolve_chained ::
  "('cls, 'fs, 'o, 'tok) registry \<Rightarrow> 'o chain_entry list
   \<Rightarrow> (string option \<times> 'o) list \<times> (error + 'fs \<times> resolved_paths)" where
  "resolve_chained R chain =
     (case nest_options R (rev chain) (empty_dict R) of
        Inl e \<Rightarrow> ([], Inl e)
      | Inr inkwargs \<Rightarrow>
          (case hd chain of
             (paths, protocol, unused) \<Rightarrow>
               (case filesystem R protocol inkwargs of
                  Inl e \<Rightarrow> ([(Some protocol, inkwargs)], Inl e)
                | Inr fs \<Rightarrow>
                    (case paths of
                       Many us \<Rightarrow>
                         (case collect (map (fs_strip_protocol R fs) us) of
                            Inl e \<Rightarrow> ([(Some protocol, inkwargs)], Inl e)
                          | Inr ps \<Rightarrow> ([(Some protocol, inkwargs)], Inr (fs, PathList ps)))
                     | One u \<Rightarrow>
                         (case fs_strip_protocol R fs u of
                            Inl e \<Rightarrow> ([(Some protocol, inkwargs)], Inl e)
                          | Inr p \<Rightarrow> ([(Some protocol, inkwargs)], Inr (fs, SinglePath p)))))))"

definition resolve_seq ::
  "('cls, 'fs, 'o, 'tok) registry \<Rightarrow> string list \<Rightarrow> 'o option \<Rightarrow> string option
   \<Rightarrow> (string option \<times> 'o) list \<times> (error + 'fs \<times> resolved_paths)" where
  "resolve_seq R urlpath storage_options protocol =
     (let protocols = map (\<lambda>u. fst (split_protocol u)) urlpath;
          checked =
            (if protocol = None then
               (if \<not> list_all (\<lambda>p. p = hd protocols) protocols
                then Inl (ValueError
                  ''When specifying a list of paths, all paths must share the same protocol'')
                else Inr (hd protocols))
             else Inr protocol)
      in case checked of
           Inl e \<Rightarrow> ([], Inl e)
         | Inr protocol' \<Rightarrow>
             (case get_filesystem_class R protocol' of
                Inl e \<Rightarrow> ([], Inl e)
              | Inr cls \<Rightarrow>
                  (let optionss = map (get_kwargs_from_urls R cls) urlpath;
                       paths = map (cls_strip_protocol R cls) urlpath;
                       options = hd optionss
                   in if \<not> list_all (\<lambda>opt. opt = options) optionss
                      then ([], Inl (ValueError
                        ''When specifying a list of paths, all paths must share the same file-system options''))
                      else
                        (case update_storage_options R options storage_options of
                           Inl e \<Rightarrow> ([], Inl e)
                         | Inr options' \<Rightarrow>
                             (case instantiate R cls options' of
                                Inl e \<Rightarrow> ([(protocol', options')], Inl e)
                              | Inr fs \<Rightarrow> ([(protocol', options')], Inr (fs, PathList paths)))))))"

definition resolve_str ::
  "('cls, 'fs, 'o, 'tok) registry \<Rightarrow> string \<Rightarrow> 'o option \<Rightarrow> string option
   \<Rightarrow> (string option \<times> 'o) list \<times> (error + 'fs \<times> resolved_paths)" where
  "resolve_str R urlpath storage_options protocol =
     (let protocols = fst (split_protocol urlpath);
          protocol' = (if protocol = None \<or> protocol = Some [] then protocols else protocol)
      in case get_filesystem_class R protocol' of
           Inl e \<Rightarrow> ([], Inl e)
         | Inr cls \<Rightarrow>
             (let options = get_kwargs_from_urls R cls urlpath;
                  paths = cls_strip_protocol R cls urlpath
              in case update_storage_options R options storage_options of
                   Inl e \<Rightarrow> ([], Inl e)
                 | Inr options' \<Rightarrow>
                     (case instantiate R cls options' of
                        Inl e \<Rightarrow> ([(protocol', options')], Inl e)
                      | Inr fs \<Rightarrow> ([(protocol', options')], Inr (fs, SinglePath paths)))))"

definition expand_final ::
  "('cls, 'fs, 'o, 'tok) registry \<Rightarrow> 'fs \<Rightarrow> resolved_paths \<Rightarrow> string \<Rightarrow> int
   \<Rightarrow> (int \<Rightarrow> string) option \<Rightarrow> bool \<Rightarrow> error + string list" where
  "expand_final R fs paths mode num name_function expand =
     (case paths of
        PathList ps \<Rightarrow>
          expand_paths_if_needed (build_name_function R) (fs_glob R fs) ps mode num name_function
      | SinglePath p \<Rightarrow>
          if CHR ''w'' \<in> set mode \<and> expand
          then expand_paths (build_name_function R) (PathStr p) name_function num
          else if CHR ''*'' \<in> set p
          then (case fs_glob R fs p of
                  Inl e \<Rightarrow> Inl e
                | Inr found \<Rightarrow> Inr (filter (\<lambda>f. \<not> fs_isdir R fs f) (sort found)))
          else Inr [p])"

definition get_fs_token_paths ::
  "('cls, 'fs, 'o, 'tok) registry \<Rightarrow> urlpath \<Rightarrow> string \<Rightarrow> int \<Rightarrow> (int \<Rightarrow> string) option
   \<Rightarrow> 'o option \<Rightarrow> string option \<Rightarrow> bool
   \<Rightarrow> (string option \<times> 'o) list \<times> (error + 'fs \<times> 'tok \<times> string list)" where
  "get_fs_token_paths R urlpath mode num name_function storage_options protocol expand =
     (if urlpath = UrlSeq [] then ([], Inl (ValueError ''empty urlpath sequence''))
      else
        (let kwargs = (case storage_options of None \<Rightarrow> empty_dict R | Some d \<Rightarrow> d)
         in case (case urlpath of
                    UrlStr u \<Rightarrow> un_chain_str R u kwargs
                  | UrlSeq us \<Rightarrow> un_chain_seq R us kwargs) of
              Inl e \<Rightarrow> ([], Inl e)
            | Inr chain \<Rightarrow>
                (case (if length chain > 1 then resolve_chained R chain
                       else (case urlpath of
                               UrlSeq us \<Rightarrow> resolve_seq R us storage_options protocol
                             | UrlStr u \<Rightarrow> resolve_str R u storage_options protocol)) of
                   (made, Inl e) \<Rightarrow> (made, Inl e)
                 | (made, Inr (fs, paths)) \<Rightarrow>
                     (case expand_final R fs paths mode num name_function expand of
                        Inl e \<Rightarrow> (made, Inl e)
                      | Inr ps \<Rightarrow> (made, Inr (fs, fs_token R fs, ps))))))"

section \<open>Sample backends\<close>

text \<open>
  Concrete backends on which the definitions above can be run.  A stream is the raw file
  a filesystem opened, a codec around a stream, or a text wrapper around a stream; the
  world is the list of streams closed so far.  Every open succeeds; flushing a closed
  stream raises, as Python's streams do; closing a text wrapper also closes the stream
  it wraps, while a codec leaves the wrapped file open.
\<close>

datatype stream = RawStream string string | Codec string stream string | TextStream stream

fun close_marks :: "stream \<Rightarrow> stream list" where
  "close_marks (TextStream g) = TextStream g # close_marks g"
| "close_marks s = [s]"

definition extension_table :: "string \<rightharpoonup> string" where
  "extension_table = map_of [(''gz'', ''gzip''), (''bz2'', ''bz2'')]"

definition codec :: "string \<Rightarrow> stream \<Rightarrow> string \<Rightarrow> stream list \<Rightarrow> (error + stream) \<times> stream list" where
  "codec name f m w = (Inr (Codec name f m), w)"

definition sample_open ::
  "unit \<Rightarrow> string \<Rightarrow> string \<Rightarrow> stream list \<Rightarrow> (error + stream) \<times> stream list" where
  "sample_open fs path mode w = (Inr (RawStream path mode), w)"

definition sample_text ::
  "stream \<Rightarrow> string option \<Rightarrow> string option \<Rightarrow> string option \<Rightarrow> stream list
   \<Rightarrow> (error + stream) \<times> stream list" where
  "sample_text f encoding errors newline w = (Inr (TextStream f), w)"

definition sample_closed :: "stream \<Rightarrow> stream list \<Rightarrow> bool" where
  "sample_closed f w = (f \<in> set w)"

definition sample_flush :: "stream \<Rightarrow> stream list \<Rightarrow> (error + unit) \<times> stream list" where
  "sample_flush f w =
     (if f \<in> set w then (Inl (ValueError ''I/O operation on closed file.''), w)
      else (Inr (), w))"

definition sample_close :: "stream \<Rightarrow> stream list \<Rightarrow> (error + unit) \<times> stream list" where
  "sample_close f w = (Inr (), w @ close_marks f)"

definition sample_env :: "(unit, stream, stream list) env" where
  "sample_env =
     \<lparr>infer_compr = infer_compression extension_table,
      compr = map_of [(''gzip'', codec ''gzip''), (''bz2'', codec ''bz2'')],
      fs_open = sample_open,
      text_io_wrapper = sample_text,
      f_closed = sample_closed,
      f_flush = sample_flush,
      f_close = sample_close\<rparr>"

text \<open>
  A wrapper over the sample backends: a gzip-compressed file opened in text mode, and the
  three streams that entering it creates.
\<close>

definition sample_gz_text :: "(unit, stream) OpenFile" where
  "sample_gz_text =
     \<lparr>of_fs = (), of_path = ''data.csv.gz'', of_mode = ''rt'', of_compression = Some ''gzip'',
      of_encoding = Some ''utf8'', of_errors = None, of_newline = None, of_fobjects = []\<rparr>"

definition raw_gz :: stream where
  "raw_gz = RawStream ''data.csv.gz'' ''rb''"

definition dec_gz :: stream where
  "dec_gz = Codec ''gzip'' raw_gz ''r''"

definition txt_gz :: stream where
  "txt_gz = TextStream dec_gz"

text \<open>
  The same file opened for writing in text mode, with the three streams that entering it
  creates, and backends on which every flush fails.
\<close>

definition sample_out_text :: "(unit, stream) OpenFile" where
  "sample_out_text =
     \<lparr>of_fs = (), of_path = ''out.csv.gz'', of_mode = ''wt'', of_compression = Some ''gzip'',
      of_encoding = Some ''utf8'', of_errors = None, of_newline = None, of_fobjects = []\<rparr>"

definition raw_out :: stream where
  "raw_out = RawStream ''out.csv.gz'' ''wb''"

definition dec_out :: stream where
  "dec_out = Codec ''gzip'' raw_out ''w''"

definition txt_out :: stream where
  "txt_out = TextStream dec_out"

definition full_disk_env :: "(unit, stream, stream list) env" where
  "full_disk_env =
     sample_env\<lparr>f_flush := \<lambda>f w. (Inl (BackendError ''No space left on device''), w)\<rparr>"

text \<open>
  Name functions and a filesystem listing for running the path expansion: decimal index
  names without padding, a name function whose names start with the separator, and a
  filesystem on which no pattern matches.
\<close>

fun decimal :: "nat \<Rightarrow> string" where
  "decimal n =
     (if n < 10 then [char_of (48 + n)]
      else decimal (n div 10) @ [char_of (48 + n mod 10)])"

declare decimal.simps [simp del]

definition index_names :: "int \<Rightarrow> int \<Rightarrow> string" where
  "index_names max_int i = decimal (nat i)"

definition rooted_name :: "int \<Rightarrow> string" where
  "rooted_name i = ''/x''"

definition no_glob :: "string \<Rightarrow> error + string list" where
  "no_glob pattern = Inr []"

text \<open>
  A registry for running the resolver: the protocols \<open>file\<close>, \<open>s3\<close>, \<open>gcs\<close>, \<open>ftp\<close> and
  \<open>simplecache\<close> are known; an \<open>ftp\<close> URL carries its host as an option and no other URL
  carries any; a class is named by its protocol and a filesystem object is the pair of
  its class and the options it was created with; dictionaries are association lists.
\<close>

datatype sval = SStr string | SDict "(string \<times> sval) list" | SUrls urls

definition sample_class :: "string option \<Rightarrow> error + string" where
  "sample_class protocol =
     (case protocol of
        None \<Rightarrow> Inr ''file''
      | Some n \<Rightarrow>
          if n \<in> set [''file'', ''s3'', ''gcs'', ''ftp'', ''simplecache''] then Inr n
          else Inl (ValueError (''Protocol not known: '' @ n)))"

definition sample_kwargs :: "string \<Rightarrow> string \<Rightarrow> (string \<times> sval) list" where
  "sample_kwargs cls url =
     (if cls = ''ftp''
      then [(''host'', SStr (takeWhile (\<lambda>c. c \<noteq> CHR ''/'') (snd (split_protocol url))))]
      else [])"

definition sample_strip :: "string \<Rightarrow> string \<Rightarrow> string" where
  "sample_strip cls url = snd (split_protocol url)"

definition sample_instantiate ::
  "string \<Rightarrow> (string \<times> sval) list \<Rightarrow> error + string \<times> (string \<times> sval) list" where
  "sample_instantiate cls options = Inr (cls, options)"

definition sample_update ::
  "(string \<times> sval) list \<Rightarrow> (string \<times> sval) list option \<Rightarrow> error + (string \<times> sval) list" where
  "sample_update options inherited =
     Inr (options @ (case inherited of None \<Rightarrow> [] | Some d \<Rightarrow> d))"

definition sample_fs_strip ::
  "string \<times> (string \<times> sval) list \<Rightarrow> string option \<Rightarrow> error + string" where
  "sample_fs_strip fs u =
     (case u of
        None \<Rightarrow> Inl (TypeError ''expected a path'')
      | Some url \<Rightarrow> Inr (snd (split_protocol url)))"

definition sample_fs_glob ::
  "string \<times> (string \<times> sval) list \<Rightarrow> string \<Rightarrow> error + string list" where
  "sample_fs_glob fs pattern = Inr []"

definition sample_fs_isdir :: "string \<times> (string \<times> sval) list \<Rightarrow> string \<Rightarrow> bool" where
  "sample_fs_isdir fs path = False"

definition sample_dict_get :: "(string \<times> sval) list \<Rightarrow> string \<Rightarrow> (string \<times> sval) list" where
  "sample_dict_get d k = (case map_of d k of Some (SDict v) \<Rightarrow> v | _ \<Rightarrow> [])"

definition sample_dict_merge ::
  "(string \<times> sval) list \<Rightarrow> (string \<times> sval) list \<Rightarrow> error + (string \<times> sval) list" where
  "sample_dict_merge a b =
     (if \<exists>k \<in> set (map fst b). k \<in> set (map fst a)
      then Inl (TypeError ''got multiple values for keyword argument'')
      else Inr (a @ b))"

definition sample_dict_has_key :: "(string \<times> sval) list \<Rightarrow> string \<Rightarrow> bool" where
  "sample_dict_has_key d k = (k \<in> set (map fst d))"

definition sample_dict_set ::
  "(string \<times> sval) list \<Rightarrow> string \<Rightarrow> (string \<times> sval) list item \<Rightarrow> (string \<times> sval) list" where
  "sample_dict_set d k v =
     filter (\<lambda>kv. fst kv \<noteq> k) d @
     [(k, case v of ItemDict x \<Rightarrow> SDict x | ItemStr x \<Rightarrow> SStr x | ItemUrls x \<Rightarrow> SUrls x)]"

definition sample_registry ::
  "(string, string \<times> (string \<times> sval) list, (string \<times> sval) list,
    string \<times> (string \<times> sval) list) registry" where
  "sample_registry =
     \<lparr>get_filesystem_class = sample_class,
      get_kwargs_from_urls = sample_kwargs,
      cls_strip_protocol = sample_strip,
      instantiate = sample_instantiate,
      filesystem = sample_instantiate,
      update_storage_options = sample_update,
      fs_strip_protocol = sample_fs_strip,
      fs_glob = sample_fs_glob,
      fs_isdir = sample_fs_isdir,
      fs_token = (\<lambda>fs. fs),
      build_name_function = index_names,
      empty_dict = [],
      dict_get = sample_dict_get,
      dict_merge = sample_dict_merge,
      dict_has_key = sample_dict_has_key,
      dict_set = sample_dict_set\<rparr>"

section \<open>Properties of protocol parsing\<close>

lemma split_once_decompose:
  "contains sep s \<Longrightarrow> split_once sep s = (a, b) \<Longrightarrow>
     s = a @ sep @ b \<and> (\<forall>i < length a. take (length sep) (drop i s) \<noteq> sep)"
proof (induction s arbitrary: a b)
  case Nil
  then show ?case by simp
next
  case (Cons c cs)
  show ?case
  proof (cases "take (length sep) (c # cs) = sep")
    case True
    with Cons.prems have "a = []" "b = drop (length sep) (c # cs)" by auto
    with True show ?thesis by (metis append_Nil append_take_drop_id list.size(3) not_less_zero)
  next
    case False
    with Cons.prems(1) have c: "contains sep cs" by simp
    obtain a' b' where ab: "split_once sep cs = (a', b')" by (cases "split_once sep cs")
    with False Cons.prems(2) have a: "a = c # a'" and b: "b = b'" by auto
    from Cons.IH[OF c ab] have ih: "cs = a' @ sep @ b'" "\<forall>i < length a'. take (length sep) (drop i cs) \<noteq> sep" by auto
    have "\<forall>i < length a. take (length sep) (drop i (c # cs)) \<noteq> sep"
    proof (intro allI impI)
      fix i assume "i < length a"
      show "take (length sep) (drop i (c # cs)) \<noteq> sep"
      proof (cases i)
        case 0 then show ?thesis using False by simp
      next
        case (Suc j)
        with \<open>i < length a\<close> a have "j < length a'" by simp
        with ih(2) Suc show ?thesis by simp
      qed
    qed
    with ih(1) a b show ?thesis by simp
  qed
qed

text \<open>
  Claim C3, as amended.  For every path that contains \<open>://\<close>, \<open>split_protocol\<close> cuts it at
  the first occurrence into a protocol part and a remainder, and returns that pair
  exactly when the protocol part has more than one character; when the protocol part is
  empty or a single character the result is no protocol and the whole path.
\<close>

theorem split_protocol_first_occurrence:
  assumes "contains ''://'' path"
  shows "\<exists>protocol remainder.
           path = protocol @ ''://'' @ remainder \<and>
           (\<forall>i < length protocol. take 3 (drop i path) \<noteq> ''://'') \<and>
           split_protocol path =
             (if length protocol > 1 then (Some protocol, remainder) else (None, path))"
proof -
  obtain a b where ab: "split_once ''://'' path = (a, b)" by (cases "split_once ''://'' path")
  have l: "length ''://'' = 3" by simp
  note d = split_once_decompose[OF assms ab, unfolded l]
  from d have "path = a @ ''://'' @ b" by (rule conjunct1)
  moreover from d have "\<forall>i < length a. take 3 (drop i path) \<noteq> ''://''" by (rule conjunct2)
  moreover have "split_protocol path = (if length a > 1 then (Some a, b) else (None, path))"
    using assms ab by (simp add: split_protocol_def)
  ultimately show ?thesis by blast
qed

theorem split_protocol_first_occurrence_witness:
  "contains ''://'' ''s3://bucket/a'' \<and>
   (\<exists>protocol remainder.
           ''s3://bucket/a'' = protocol @ ''://'' @ remainder \<and>
           (\<forall>i < length protocol. take 3 (drop i ''s3://bucket/a'') \<noteq> ''://'') \<and>
           split_protocol ''s3://bucket/a'' =
             (if length protocol > 1 then (Some protocol, remainder) else (None, ''s3://bucket/a'')))"
proof -
  have h: "contains ''://'' ''s3://bucket/a''" by simp
  from split_protocol_first_occurrence[OF h] h show ?thesis by blast
qed

text \<open>
  The claim as first stated asks for the pair whenever the protocol part is not empty.
  The path \<open>c://x\<close> has the one-character protocol part \<open>c\<close> and is returned whole.
\<close>

theorem split_protocol_single_char_counterexample:
  "contains ''://'' ''c://x'' \<and> split_once ''://'' ''c://x'' = (''c'', ''x'') \<and> ''c'' \<noteq> ''''
   \<and> split_protocol ''c://x'' = (None, ''c://x'')"
  by (simp add: split_protocol_def)

section \<open>Properties of the file wrapper\<close>

lemma closes_append: "closes (xs @ ys) = closes xs @ closes ys"
  by (induction xs rule: closes.induct) auto

lemma flushes_append: "flushes (xs @ ys) = flushes xs @ flushes ys"
  by (induction xs rule: flushes.induct) auto

lemma close_one_calls:
  "fst (close_one E mode f w) =
     (if CHR ''r'' \<notin> set mode \<and> \<not> f_closed E f w
      then (case fst (f_flush E f w) of Inl e \<Rightarrow> [Flush f] | Inr u \<Rightarrow> [Flush f, Close f])
      else [Close f])"
  by (auto simp: close_one_def split: prod.splits sum.splits)

lemma close_one_ok_closes:
  "close_one E mode f w = (calls, Inr u, w') \<Longrightarrow> closes calls = [f]"
  by (auto simp: close_one_def closes_append split: prod.splits sum.splits if_splits)

lemma close_one_read_mode:
  "CHR ''r'' \<in> set mode \<Longrightarrow> flushes (fst (close_one E mode f w)) = []"
  by (simp add: close_one_calls)

lemma close_loop_ok_closes:
  "close_loop E fs mode w = (calls, Inr u, w') \<Longrightarrow> closes calls = fs"
proof (induction fs arbitrary: w calls w')
  case Nil
  then show ?case by simp
next
  case (Cons f fs)
  from Cons.prems obtain c1 u1 w1 c2 where
    one: "close_one E mode f w = (c1, Inr u1, w1)" and
    rest: "close_loop E fs mode w1 = (c2, Inr u, w')" and
    calls: "calls = c1 @ c2"
    by (auto split: prod.splits sum.splits)
  from close_one_ok_closes[OF one] Cons.IH[OF rest] calls show ?case
    by (simp add: closes_append)
qed

lemma close_loop_read_mode:
  "CHR ''r'' \<in> set mode \<Longrightarrow> flushes (fst (close_loop E fs mode w)) = []"
proof (induction fs arbitrary: w)
  case Nil
  then show ?case by simp
next
  case (Cons f fs)
  obtain c1 r1 w1 where one: "close_one E mode f w = (c1, r1, w1)"
    by (cases "close_one E mode f w") auto
  from close_one_read_mode[OF Cons.prems, of E f w] one have f1: "flushes c1 = []" by simp
  show ?case
  proof (cases r1)
    case (Inl e)
    with one f1 show ?thesis by simp
  next
    case (Inr u)
    obtain c2 r2 w2 where rest: "close_loop E fs mode w1 = (c2, r2, w2)"
      by (cases "close_loop E fs mode w1") auto
    from Cons.IH[OF Cons.prems, of w1] rest have "flushes c2 = []" by simp
    with one Inr rest f1 show ?thesis by (simp add: flushes_append)
  qed
qed





lemma module_close_ok:
  "module_close E fobjects mode w = (calls, Inr u, fobjects', w') \<Longrightarrow>
     closes calls = rev fobjects \<and> fobjects' = []"
  by (auto simp: module_close_def split: prod.splits sum.splits dest: close_loop_ok_closes)

lemma module_close_empty: "module_close E [] mode w = ([], Inr (), [], w)"
  by (simp add: module_close_def)

lemma module_close_read_mode:
  "CHR ''r'' \<in> set mode \<Longrightarrow> flushes (fst (module_close E fobjects mode w)) = []"
  using close_loop_read_mode[of mode E "rev fobjects" w]
  by (auto simp: module_close_def split: prod.splits sum.splits)

lemma OpenFile_close_empty:
  "of_fobjects self = [] \<Longrightarrow> OpenFile_close E self w = ([], Inr (), self, w)"
  by (simp add: OpenFile_close_def module_close_empty)

lemma OpenFile_close_ok:
  "OpenFile_close E self w = (calls, Inr u, self', w') \<Longrightarrow>
     closes calls = rev (of_fobjects self) \<and> self' = self\<lparr>of_fobjects := []\<rparr>"
  by (auto simp: OpenFile_close_def split: prod.splits dest: module_close_ok)

lemma OpenFile_init_fobjects:
  "OpenFile_init E fs path mode compression encoding errors newline = Inr self \<Longrightarrow>
     of_fobjects self = []"
  by (auto simp: OpenFile_init_def split: sum.splits)


lemma OpenFile_close_snoc:
  "OpenFile_close E (self\<lparr>of_fobjects := pre @ [f]\<rparr>) w =
     (case close_one E (of_mode self) f w of
        (c1, Inl e, w1) \<Rightarrow> (c1, Inl e, self\<lparr>of_fobjects := pre @ [f]\<rparr>, w1)
      | (c1, Inr u, w1) \<Rightarrow>
          (case OpenFile_close E (self\<lparr>of_fobjects := pre\<rparr>) w1 of
             (c2, Inl e, s, w2) \<Rightarrow> (c1 @ c2, Inl e, self\<lparr>of_fobjects := pre @ [f]\<rparr>, w2)
           | (c2, Inr u', s, w2) \<Rightarrow> (c1 @ c2, Inr (), self\<lparr>of_fobjects := []\<rparr>, w2)))"
  by (auto simp: OpenFile_close_def module_close_def split: prod.splits sum.splits)





text \<open>
  Claim C2, as amended.  What decides the flush is whether the wrapper's mode is a read
  mode, not whether it is binary.  Closing a wrapper starts with its last layer \<open>f\<close>:
  \<^item> when the wrapper's mode has no \<open>r\<close> and \<open>f\<close> is not already closed, \<open>f\<close> is flushed and
    then closed, the \<^verbatim>\<open>close\<close> running in the world the flush left, and the layers before
    \<open>f\<close> are closed in the same way from the world that \<^verbatim>\<open>close\<close> left;
  \<^item> when the wrapper's mode has an \<open>r\<close>, or \<open>f\<close> is already closed, \<open>f\<close> is closed without
    a flush and the layers before it are closed from the world that \<^verbatim>\<open>close\<close> left;
  \<^item> when the flush is due and raises, the exception leaves the call, with \<open>f\<close> not
    closed and the layer list as it was.
  Hence closing a wrapper whose mode has an \<open>r\<close> flushes nothing, whether the mode is
  binary or text.  The scope exit is this close, and the loop body makes the same calls
  for every mode, stream and world.
\<close>

theorem flush_unless_read_mode:
  "(CHR ''r'' \<notin> set (of_mode self) \<and> \<not> f_closed E f w \<and>
    f_flush E f w = (Inr (), w1) \<and> f_close E f w1 = (Inr (), w2) \<longrightarrow>
      OpenFile_close E (self\<lparr>of_fobjects := pre @ [f]\<rparr>) w =
        (case OpenFile_close E (self\<lparr>of_fobjects := pre\<rparr>) w2 of
           (calls, Inl e, s, w3) \<Rightarrow>
             ([Flush f, Close f] @ calls, Inl e, self\<lparr>of_fobjects := pre @ [f]\<rparr>, w3)
         | (calls, Inr u, s, w3) \<Rightarrow>
             ([Flush f, Close f] @ calls, Inr (), self\<lparr>of_fobjects := []\<rparr>, w3))) \<and>
   ((CHR ''r'' \<in> set (of_mode self) \<or> f_closed E f w) \<and> f_close E f w = (Inr (), w2) \<longrightarrow>
      OpenFile_close E (self\<lparr>of_fobjects := pre @ [f]\<rparr>) w =
        (case OpenFile_close E (self\<lparr>of_fobjects := pre\<rparr>) w2 of
           (calls, Inl e, s, w3) \<Rightarrow>
             ([Close f] @ calls, Inl e, self\<lparr>of_fobjects := pre @ [f]\<rparr>, w3)
         | (calls, Inr u, s, w3) \<Rightarrow>
             ([Close f] @ calls, Inr (), self\<lparr>of_fobjects := []\<rparr>, w3))) \<and>
   (CHR ''r'' \<notin> set (of_mode self) \<and> \<not> f_closed E f w \<and> f_flush E f w = (Inl err, w1) \<longrightarrow>
      OpenFile_close E (self\<lparr>of_fobjects := pre @ [f]\<rparr>) w =
        ([Flush f], Inl err, self\<lparr>of_fobjects := pre @ [f]\<rparr>, w1)) \<and>
   (CHR ''r'' \<in> set (of_mode self) \<longrightarrow> flushes (fst (OpenFile_close E self w)) = []) \<and>
   OpenFile_exit E self w = OpenFile_close E self w \<and>
   fst (close_one E mode f w) =
     (if CHR ''r'' \<notin> set mode \<and> \<not> f_closed E f w
      then (case fst (f_flush E f w) of Inl e \<Rightarrow> [Flush f] | Inr u \<Rightarrow> [Flush f, Close f])
      else [Close f])"
proof (intro conjI impI)
  assume h: "CHR ''r'' \<notin> set (of_mode self) \<and> \<not> f_closed E f w \<and>
    f_flush E f w = (Inr (), w1) \<and> f_close E f w1 = (Inr (), w2)"
  then have "close_one E (of_mode self) f w = ([Flush f, Close f], Inr (), w2)"
    by (simp add: close_one_def)
  then show "OpenFile_close E (self\<lparr>of_fobjects := pre @ [f]\<rparr>) w =
        (case OpenFile_close E (self\<lparr>of_fobjects := pre\<rparr>) w2 of
           (calls, Inl e, s, w3) \<Rightarrow>
             ([Flush f, Close f] @ calls, Inl e, self\<lparr>of_fobjects := pre @ [f]\<rparr>, w3)
         | (calls, Inr u, s, w3) \<Rightarrow>
             ([Flush f, Close f] @ calls, Inr (), self\<lparr>of_fobjects := []\<rparr>, w3))"
    by (simp add: OpenFile_close_snoc)
next
  assume h: "(CHR ''r'' \<in> set (of_mode self) \<or> f_closed E f w) \<and> f_close E f w = (Inr (), w2)"
  then have "close_one E (of_mode self) f w = ([Close f], Inr (), w2)"
    by (auto simp: close_one_def)
  then show "OpenFile_close E (self\<lparr>of_fobjects := pre @ [f]\<rparr>) w =
        (case OpenFile_close E (self\<lparr>of_fobjects := pre\<rparr>) w2 of
           (calls, Inl e, s, w3) \<Rightarrow>
             ([Close f] @ calls, Inl e, self\<lparr>of_fobjects := pre @ [f]\<rparr>, w3)
         | (calls, Inr u, s, w3) \<Rightarrow>
             ([Close f] @ calls, Inr (), self\<lparr>of_fobjects := []\<rparr>, w3))"
    by (simp add: OpenFile_close_snoc)
next
  assume h: "CHR ''r'' \<notin> set (of_mode self) \<and> \<not> f_closed E f w \<and> f_flush E f w = (Inl err, w1)"
  then have "close_one E (of_mode self) f w = ([Flush f], Inl err, w1)"
    by (simp add: close_one_def)
  then show "OpenFile_close E (self\<lparr>of_fobjects := pre @ [f]\<rparr>) w =
        ([Flush f], Inl err, self\<lparr>of_fobjects := pre @ [f]\<rparr>, w1)"
    by (simp add: OpenFile_close_snoc)
next
  assume r: "CHR ''r'' \<in> set (of_mode self)"
  from module_close_read_mode[OF r, of E "of_fobjects self" w]
  show "flushes (fst (OpenFile_close E self w)) = []"
    by (cases "module_close E (of_fobjects self) (of_mode self) w")
       (simp add: OpenFile_close_def)
next
  show "OpenFile_exit E self w = OpenFile_close E self w"
    by (simp add: OpenFile_exit_def)
next
  show "fst (close_one E mode f w) =
     (if CHR ''r'' \<notin> set mode \<and> \<not> f_closed E f w
      then (case fst (f_flush E f w) of Inl e \<Rightarrow> [Flush f] | Inr u \<Rightarrow> [Flush f, Close f])
      else [Close f])"
    by (rule close_one_calls)
qed

theorem flush_unless_read_mode_witness:
  "CHR ''r'' \<notin> set (of_mode sample_out_text) \<and> \<not> f_closed sample_env txt_out [] \<and>
   f_flush sample_env txt_out [] = (Inr (), []) \<and>
   f_close sample_env txt_out [] = (Inr (), [txt_out, dec_out]) \<and>
   OpenFile_close sample_env (sample_out_text\<lparr>of_fobjects := [raw_out, dec_out, txt_out]\<rparr>) [] =
     ([Flush txt_out, Close txt_out, Close dec_out, Flush raw_out, Close raw_out], Inr (),
      sample_out_text\<lparr>of_fobjects := []\<rparr>, [txt_out, dec_out, dec_out, raw_out]) \<and>
   CHR ''r'' \<in> set (of_mode sample_gz_text) \<and>
   f_close sample_env txt_gz [] = (Inr (), [txt_gz, dec_gz]) \<and>
   OpenFile_close sample_env (sample_gz_text\<lparr>of_fobjects := [raw_gz, dec_gz, txt_gz]\<rparr>) [] =
     ([Close txt_gz, Close dec_gz, Close raw_gz], Inr (),
      sample_gz_text\<lparr>of_fobjects := []\<rparr>, [txt_gz, dec_gz, dec_gz, raw_gz]) \<and>
   \<not> f_closed full_disk_env txt_out [] \<and>
   f_flush full_disk_env txt_out [] = (Inl (BackendError ''No space left on device''), []) \<and>
   OpenFile_close full_disk_env (sample_out_text\<lparr>of_fobjects := [raw_out, dec_out, txt_out]\<rparr>) [] =
     ([Flush txt_out], Inl (BackendError ''No space left on device''),
      sample_out_text\<lparr>of_fobjects := [raw_out, dec_out, txt_out]\<rparr>, []) \<and>
   flushes (fst (OpenFile_close sample_env
     (sample_gz_text\<lparr>of_fobjects := [raw_gz, dec_gz, txt_gz]\<rparr>) [])) = [] \<and>
   fst (close_one sample_env ''wt'' txt_out []) = [Flush txt_out, Close txt_out]"
proof -
  have a1: "CHR ''r'' \<notin> set (of_mode sample_out_text)" by code_simp
  have a2: "\<not> f_closed sample_env txt_out []" by code_simp
  have a3: "f_flush sample_env txt_out [] = (Inr (), [])" by code_simp
  have a4: "f_close sample_env txt_out [] = (Inr (), [txt_out, dec_out])" by code_simp
  have a5: "OpenFile_close sample_env (sample_out_text\<lparr>of_fobjects := [raw_out, dec_out]\<rparr>)
              [txt_out, dec_out] =
            ([Close dec_out, Flush raw_out, Close raw_out], Inr (),
             sample_out_text\<lparr>of_fobjects := []\<rparr>, [txt_out, dec_out, dec_out, raw_out])"
    by code_simp
  have b1: "CHR ''r'' \<in> set (of_mode sample_gz_text)" by code_simp
  have b2: "f_close sample_env txt_gz [] = (Inr (), [txt_gz, dec_gz])" by code_simp
  have b3: "OpenFile_close sample_env (sample_gz_text\<lparr>of_fobjects := [raw_gz, dec_gz]\<rparr>)
              [txt_gz, dec_gz] =
            ([Close dec_gz, Close raw_gz], Inr (),
             sample_gz_text\<lparr>of_fobjects := []\<rparr>, [txt_gz, dec_gz, dec_gz, raw_gz])"
    by code_simp
  have c1: "\<not> f_closed full_disk_env txt_out []" by code_simp
  have c2: "f_flush full_disk_env txt_out [] = (Inl (BackendError ''No space left on device''), [])"
    by code_simp
  have d1: "(if CHR ''r'' \<notin> set ''wt'' \<and> \<not> f_closed sample_env txt_out []
            then (case fst (f_flush sample_env txt_out []) of
                    Inl e \<Rightarrow> [Flush txt_out] | Inr u \<Rightarrow> [Flush txt_out, Close txt_out])
            else [Close txt_out]) = [Flush txt_out, Close txt_out]"
    by code_simp
  note t1 = flush_unless_read_mode[where E = sample_env and self = sample_out_text
              and pre = "[raw_out, dec_out]" and f = txt_out and w = "[]" and ?w1.0 = "[]"
              and ?w2.0 = "[txt_out, dec_out]"]
  from t1 a1 a2 a3 a4 a5 have r1:
    "OpenFile_close sample_env (sample_out_text\<lparr>of_fobjects := [raw_out, dec_out, txt_out]\<rparr>) [] =
     ([Flush txt_out, Close txt_out, Close dec_out, Flush raw_out, Close raw_out], Inr (),
      sample_out_text\<lparr>of_fobjects := []\<rparr>, [txt_out, dec_out, dec_out, raw_out])"
    by simp
  note t2 = flush_unless_read_mode[where E = sample_env and self = sample_gz_text
              and pre = "[raw_gz, dec_gz]" and f = txt_gz and w = "[]"
              and ?w2.0 = "[txt_gz, dec_gz]"]
  from t2 b1 b2 b3 have r2:
    "OpenFile_close sample_env (sample_gz_text\<lparr>of_fobjects := [raw_gz, dec_gz, txt_gz]\<rparr>) [] =
     ([Close txt_gz, Close dec_gz, Close raw_gz], Inr (),
      sample_gz_text\<lparr>of_fobjects := []\<rparr>, [txt_gz, dec_gz, dec_gz, raw_gz])"
    by simp
  note t3 = flush_unless_read_mode[where E = full_disk_env and self = sample_out_text
              and pre = "[raw_out, dec_out]" and f = txt_out and w = "[]" and ?w1.0 = "[]"
              and err = "BackendError ''No space left on device''"]
  from t3 a1 c1 c2 have r3:
    "OpenFile_close full_disk_env (sample_out_text\<lparr>of_fobjects := [raw_out, dec_out, txt_out]\<rparr>) [] =
     ([Flush txt_out], Inl (BackendError ''No space left on device''),
      sample_out_text\<lparr>of_fobjects := [raw_out, dec_out, txt_out]\<rparr>, [])"
    by simp
  note t4 = flush_unless_read_mode[where E = sample_env
              and self = "sample_gz_text\<lparr>of_fobjects := [raw_gz, dec_gz, txt_gz]\<rparr>"
              and w = "[]" and mode = "''wt''" and f = txt_out]
  have b1': "CHR ''r'' \<in> set (of_mode (sample_gz_text\<lparr>of_fobjects := [raw_gz, dec_gz, txt_gz]\<rparr>))"
    by code_simp
  from t4 b1' have r4: "flushes (fst (OpenFile_close sample_env
     (sample_gz_text\<lparr>of_fobjects := [raw_gz, dec_gz, txt_gz]\<rparr>) [])) = []"
    by blast
  from t4 d1 have r5: "fst (close_one sample_env ''wt'' txt_out []) = [Flush txt_out, Close txt_out]"
    by simp
  from a1 a2 a3 a4 r1 b1 b2 r2 c1 c2 r3 r4 r5 show ?thesis by blast
qed

text \<open>
  The claim as first stated ties the flush to text modes.  In the binary write mode
  \<open>wb\<close> an open stream is flushed before it is closed, and in the text read mode \<open>r\<close>
  an open stream is closed without a flush.
\<close>

theorem flush_binary_write_counterexample:
  "CHR ''b'' \<in> set ''wb'' \<and>
   \<not> f_closed sample_env (RawStream ''out.bin'' ''wb'') [] \<and>
   fst (close_one sample_env ''wb'' (RawStream ''out.bin'' ''wb'') []) =
     [Flush (RawStream ''out.bin'' ''wb''), Close (RawStream ''out.bin'' ''wb'')] \<and>
   CHR ''b'' \<notin> set ''r'' \<and>
   \<not> f_closed sample_env (TextStream (RawStream ''in.txt'' ''rb'')) [] \<and>
   fst (close_one sample_env ''r'' (TextStream (RawStream ''in.txt'' ''rb'')) []) =
     [Close (TextStream (RawStream ''in.txt'' ''rb''))]"
  by code_simp

text \<open>
  Claim C4.  A wrapper that the constructor built, whatever streams it holds by now, is
  rebuilt from the tuple of its reduction with the same filesystem handle, path, mode,
  resolved compression, encoding, errors and newline, and with an empty layer list.
\<close>

theorem reduce_roundtrip:
  assumes "OpenFile_init E fs path mode compression encoding errors newline = Inr self"
  shows "reconstruct E (OpenFile_reduce (self\<lparr>of_fobjects := layers\<rparr>)) =
           Inr (self\<lparr>of_fobjects := []\<rparr>)"
proof -
  from assms obtain c where
    g: "get_compression (infer_compr E) (compr E) path compression = Inr c" and
    s: "self = \<lparr>of_fs = fs, of_path = path, of_mode = mode, of_compression = c,
                 of_encoding = encoding, of_errors = errors, of_newline = newline,
                 of_fobjects = []\<rparr>"
    by (auto simp: OpenFile_init_def split: sum.splits)
  have again: "get_compression (infer_compr E) (compr E) path c = Inr c"
  proof (cases c)
    case None
    then show ?thesis by (simp add: get_compression_def)
  next
    case (Some x)
    with g have reg: "compr E x \<noteq> None"
      by (auto simp: get_compression_def Let_def split: if_splits option.splits)
    show ?thesis
    proof (cases "x = ''infer''")
      case True
      with g Some have "infer_compr E path = Some ''infer''"
        by (auto simp: get_compression_def Let_def split: if_splits option.splits)
      with True Some reg show ?thesis by (auto simp: get_compression_def)
    next
      case False
      with Some reg show ?thesis by (auto simp: get_compression_def)
    qed
  qed
  with s show ?thesis
    by (simp add: reconstruct_def OpenFile_reduce_def OpenFile_init_def)
qed

theorem reduce_roundtrip_witness:
  "OpenFile_init sample_env () ''a/b.txt.gz'' ''rb'' (Some ''infer'') None None None =
     Inr \<lparr>of_fs = (), of_path = ''a/b.txt.gz'', of_mode = ''rb'', of_compression = Some ''gzip'',
          of_encoding = None, of_errors = None, of_newline = None, of_fobjects = []\<rparr> \<and>
   reconstruct sample_env (OpenFile_reduce
     \<lparr>of_fs = (), of_path = ''a/b.txt.gz'', of_mode = ''rb'', of_compression = Some ''gzip'',
      of_encoding = None, of_errors = None, of_newline = None,
      of_fobjects = [RawStream ''a/b.txt.gz'' ''rb'']\<rparr>) =
     Inr \<lparr>of_fs = (), of_path = ''a/b.txt.gz'', of_mode = ''rb'', of_compression = Some ''gzip'',
          of_encoding = None, of_errors = None, of_newline = None, of_fobjects = []\<rparr>"
proof -
  have h: "OpenFile_init sample_env () ''a/b.txt.gz'' ''rb'' (Some ''infer'') None None None =
     Inr \<lparr>of_fs = (), of_path = ''a/b.txt.gz'', of_mode = ''rb'', of_compression = Some ''gzip'',
          of_encoding = None, of_errors = None, of_newline = None, of_fobjects = []\<rparr>"
    by code_simp
  from reduce_roundtrip[OF h, of "[RawStream ''a/b.txt.gz'' ''rb'']"] h
  show ?thesis by simp
qed

text \<open>
  Claim C5.  Closing a wrapper fresh from the constructor, which holds no layers, calls
  nothing, raises nothing and leaves the layer list empty, and so does closing it a
  second time.  When a wrapper was entered and a close then completed, its layer list is
  empty, and each of two further closes calls nothing, raises nothing and leaves it
  empty.
\<close>

theorem close_idempotent:
  "(OpenFile_init E fs path mode compression encoding errors newline = Inr self0 \<longrightarrow>
      (case OpenFile_close E self0 w of
         (calls1, r1, s1, w1) \<Rightarrow>
           calls1 = [] \<and> r1 = Inr () \<and> of_fobjects s1 = [] \<and>
           (case OpenFile_close E s1 w1 of
              (calls2, r2, s2, w2) \<Rightarrow> calls2 = [] \<and> r2 = Inr () \<and> of_fobjects s2 = []))) \<and>
   (OpenFile_enter E self w = (Inr f, self1, w1) \<and>
    OpenFile_close E self1 w1 = (calls, Inr (), self2, w2) \<longrightarrow>
      of_fobjects self2 = [] \<and>
      (case OpenFile_close E self2 w2 of
         (calls3, r3, s3, w3) \<Rightarrow>
           calls3 = [] \<and> r3 = Inr () \<and> of_fobjects s3 = [] \<and>
           (case OpenFile_close E s3 w3 of
              (calls4, r4, s4, w4) \<Rightarrow> calls4 = [] \<and> r4 = Inr () \<and> of_fobjects s4 = [])))"
proof (intro conjI impI)
  assume i: "OpenFile_init E fs path mode compression encoding errors newline = Inr self0"
  from OpenFile_init_fobjects[OF i] have e: "of_fobjects self0 = []" .
  from OpenFile_close_empty[OF e]
  have c: "\<And>w. OpenFile_close E self0 w = ([], Inr (), self0, w)" .
  show "case OpenFile_close E self0 w of
         (calls1, r1, s1, w1) \<Rightarrow>
           calls1 = [] \<and> r1 = Inr () \<and> of_fobjects s1 = [] \<and>
           (case OpenFile_close E s1 w1 of
              (calls2, r2, s2, w2) \<Rightarrow> calls2 = [] \<and> r2 = Inr () \<and> of_fobjects s2 = [])"
    by (simp add: c e)
next
  assume a: "OpenFile_enter E self w = (Inr f, self1, w1) \<and>
             OpenFile_close E self1 w1 = (calls, Inr (), self2, w2)"
  then have "OpenFile_close E self1 w1 = (calls, Inr (), self2, w2)" by simp
  from OpenFile_close_ok[OF this] show e: "of_fobjects self2 = []" by simp
  from OpenFile_close_empty[OF e]
  have c: "\<And>w. OpenFile_close E self2 w = ([], Inr (), self2, w)" .
  show "case OpenFile_close E self2 w2 of
         (calls3, r3, s3, w3) \<Rightarrow>
           calls3 = [] \<and> r3 = Inr () \<and> of_fobjects s3 = [] \<and>
           (case OpenFile_close E s3 w3 of
              (calls4, r4, s4, w4) \<Rightarrow> calls4 = [] \<and> r4 = Inr () \<and> of_fobjects s4 = [])"
    by (simp add: c e)
qed

theorem close_idempotent_witness:
  "OpenFile_init sample_env () ''data.csv.gz'' ''rt'' (Some ''gzip'') (Some ''utf8'') None None
     = Inr sample_gz_text \<and>
   (case OpenFile_close sample_env sample_gz_text [] of
      (calls1, r1, s1, w1) \<Rightarrow>
        calls1 = [] \<and> r1 = Inr () \<and> of_fobjects s1 = [] \<and>
        (case OpenFile_close sample_env s1 w1 of
           (calls2, r2, s2, w2) \<Rightarrow> calls2 = [] \<and> r2 = Inr () \<and> of_fobjects s2 = [])) \<and>
   OpenFile_enter sample_env sample_gz_text [] =
     (Inr txt_gz, sample_gz_text\<lparr>of_fobjects := [raw_gz, dec_gz, txt_gz]\<rparr>, []) \<and>
   OpenFile_close sample_env (sample_gz_text\<lparr>of_fobjects := [raw_gz, dec_gz, txt_gz]\<rparr>) [] =
     ([Close txt_gz, Close dec_gz, Close raw_gz], Inr (), sample_gz_text,
      [txt_gz, dec_gz, dec_gz, raw_gz]) \<and>
   (case OpenFile_close sample_env sample_gz_text [txt_gz, dec_gz, dec_gz, raw_gz] of
      (calls3, r3, s3, w3) \<Rightarrow>
        calls3 = [] \<and> r3 = Inr () \<and> of_fobjects s3 = [] \<and>
        (case OpenFile_close sample_env s3 w3 of
           (calls4, r4, s4, w4) \<Rightarrow> calls4 = [] \<and> r4 = Inr () \<and> of_fobjects s4 = []))"
proof -
  have i: "OpenFile_init sample_env () ''data.csv.gz'' ''rt'' (Some ''gzip'') (Some ''utf8'') None None
             = Inr sample_gz_text"
    by code_simp
  have en: "OpenFile_enter sample_env sample_gz_text [] =
     (Inr txt_gz, sample_gz_text\<lparr>of_fobjects := [raw_gz, dec_gz, txt_gz]\<rparr>, [])"
    by code_simp
  have cl: "OpenFile_close sample_env (sample_gz_text\<lparr>of_fobjects := [raw_gz, dec_gz, txt_gz]\<rparr>) [] =
     ([Close txt_gz, Close dec_gz, Close raw_gz], Inr (), sample_gz_text,
      [txt_gz, dec_gz, dec_gz, raw_gz])"
    by code_simp
  note t = close_idempotent[where E = sample_env and fs = "()" and path = "''data.csv.gz''"
         and mode = "''rt''" and compression = "Some ''gzip''" and encoding = "Some ''utf8''"
         and errors = None and newline = None and ?self0.0 = sample_gz_text and w = "[]"
         and self = sample_gz_text and f = txt_gz
         and ?self1.0 = "sample_gz_text\<lparr>of_fobjects := [raw_gz, dec_gz, txt_gz]\<rparr>"
         and ?w1.0 = "[]" and calls = "[Close txt_gz, Close dec_gz, Close raw_gz]"
         and ?self2.0 = sample_gz_text and ?w2.0 = "[txt_gz, dec_gz, dec_gz, raw_gz]"]
  note never = t[THEN conjunct1, THEN mp, OF i]
  note again = t[THEN conjunct2, THEN mp, OF conjI[OF en cl], THEN conjunct2]
  show ?thesis by (intro conjI) (fact i, fact never, fact en, fact cl, fact again)
qed

text \<open>
  Claim C6.  With \<open>infer_compression\<close> as the specification describes it, the constructor
  replaces the value \<open>infer\<close> by the extension table's entry for the path's suffix (for
  \<open>log.txt.bz2\<close> the entry of \<open>bz2\<close>; nothing for a path without a dot or with a suffix the
  table does not know).  It raises a \<open>ValueError\<close> exactly when the value so resolved is
  some name outside the codec registry; otherwise it returns a wrapper that holds the
  resolved value and no layers.  The constructor is a function of its arguments alone:
  it is not given the world, so it fails before any stream is opened.
\<close>

theorem compression_resolved_at_construction:
  assumes "infer_compr E = infer_compression table"
      and "resolved = (if compression = Some ''infer'' then infer_compression table path
                       else compression)"
  shows "((\<exists>c. resolved = Some c \<and> compr E c = None) \<longrightarrow>
            (\<exists>msg. OpenFile_init E fs path mode compression encoding errors newline
                     = Inl (ValueError msg))) \<and>
         (resolved = None \<or> (\<exists>c. resolved = Some c \<and> compr E c \<noteq> None) \<longrightarrow>
            (\<exists>self. OpenFile_init E fs path mode compression encoding errors newline = Inr self
                    \<and> of_compression self = resolved \<and> of_path self = path
                    \<and> of_fobjects self = [])) \<and>
         infer_compression table ''log.txt.bz2'' = table ''bz2'' \<and>
         infer_compression table ''log.txt'' = table ''txt'' \<and>
         (CHR ''.'' \<notin> set path \<longrightarrow> infer_compression table path = None)"
proof (intro conjI impI)
  assume "\<exists>c. resolved = Some c \<and> compr E c = None"
  then show "\<exists>msg. OpenFile_init E fs path mode compression encoding errors newline
                     = Inl (ValueError msg)"
    using assms by (auto simp: OpenFile_init_def get_compression_def)
next
  assume "resolved = None \<or> (\<exists>c. resolved = Some c \<and> compr E c \<noteq> None)"
  then show "\<exists>self. OpenFile_init E fs path mode compression encoding errors newline = Inr self
                    \<and> of_compression self = resolved \<and> of_path self = path
                    \<and> of_fobjects self = []"
    using assms by (auto simp: OpenFile_init_def get_compression_def)
next
  show "infer_compression table ''log.txt.bz2'' = table ''bz2''"
    by (simp add: infer_compression_def filename_suffix_def)
next
  show "infer_compression table ''log.txt'' = table ''txt''"
    by (simp add: infer_compression_def filename_suffix_def)
next
  assume "CHR ''.'' \<notin> set path"
  then show "infer_compression table path = None"
    by (simp add: infer_compression_def filename_suffix_def)
qed

theorem compression_resolved_at_construction_witness:
  "infer_compr sample_env = infer_compression extension_table \<and>
   (\<exists>msg. OpenFile_init sample_env () ''notes.txt'' ''rb'' (Some ''zip'') None None None
            = Inl (ValueError msg)) \<and>
   (\<exists>self. OpenFile_init sample_env () ''log.txt.bz2'' ''rb'' (Some ''infer'') None None None
            = Inr self \<and> of_compression self = Some ''bz2'' \<and> of_fobjects self = []) \<and>
   infer_compression extension_table ''log.txt'' = None"
proof -
  have h: "infer_compr sample_env = infer_compression extension_table"
    by (simp add: sample_env_def)
  have z: "compr sample_env ''zip'' = None" by (simp add: sample_env_def)
  have b: "compr sample_env ''bz2'' \<noteq> None" by (simp add: sample_env_def)
  have t: "extension_table ''txt'' = None" "extension_table ''bz2'' = Some ''bz2''"
    by (simp_all add: extension_table_def)
  have i: "infer_compression extension_table ''log.txt.bz2'' = Some ''bz2''"
    by (simp add: infer_compression_def filename_suffix_def extension_table_def)
  from compression_resolved_at_construction[OF h, of "Some ''zip''" "Some ''zip''" "''notes.txt''"
         "()" "''rb''" None None None] z
  have 1: "\<exists>msg. OpenFile_init sample_env () ''notes.txt'' ''rb'' (Some ''zip'') None None None
            = Inl (ValueError msg)" by simp
  from compression_resolved_at_construction[OF h, of "Some ''bz2''" "Some ''infer''"
         "''log.txt.bz2''" "()" "''rb''" None None None] b i
  have 2: "\<exists>self. OpenFile_init sample_env () ''log.txt.bz2'' ''rb'' (Some ''infer'') None None None
            = Inr self \<and> of_compression self = Some ''bz2'' \<and> of_fobjects self = []"
    by auto
  from compression_resolved_at_construction[OF h, of None None "''log.txt''"
         "()" "''rb''" None None None] t
  have 3: "infer_compression extension_table ''log.txt'' = None" by simp
  from h 1 2 3 show ?thesis by blast
qed

section \<open>Properties of path expansion\<close>

lemma count_char_zero_iff: "count_char c s = 0 \<longleftrightarrow> c \<notin> set s"
  by (induction s) (auto simp: count_char_def)

lemma expand_paths_str_error:
  "count_char CHR ''*'' p > 1 \<Longrightarrow> \<exists>msg. expand_paths bnf (PathStr p) nf num = Inl (ValueError msg)"
  by (simp add: expand_paths_def)

lemma expand_paths_str_ok:
  "\<not> count_char CHR ''*'' p > 1 \<Longrightarrow> \<exists>ps. expand_paths bnf (PathStr p) nf num = Inr ps"
  by (simp add: expand_paths_def Let_def)

lemma expand_loop_two_stars:
  assumes w: "CHR ''w'' \<in> set mode"
  shows "\<exists>p \<in> set paths. count_char CHR ''*'' p > 1 \<Longrightarrow>
         \<exists>msg. expand_loop bnf glob mode nf num paths acc = Inl (ValueError msg)"
proof (induction paths arbitrary: acc)
  case Nil
  then show ?case by simp
next
  case (Cons curr rest)
  show ?case
  proof (cases "count_char CHR ''*'' curr > 1")
    case True
    then have star: "CHR ''*'' \<in> set curr"
      using count_char_zero_iff[of "CHR ''*''" curr] by auto
    from expand_paths_str_error[OF True] obtain msg
      where "expand_paths bnf (PathStr curr) nf num = Inl (ValueError msg)" by blast
    with star w show ?thesis by simp
  next
    case False
    with Cons.prems have rest: "\<exists>p \<in> set rest. count_char CHR ''*'' p > 1" by auto
    from expand_paths_str_ok[OF False] obtain ps
      where ok: "expand_paths bnf (PathStr curr) nf num = Inr ps" by blast
    show ?thesis
    proof (cases "CHR ''*'' \<in> set curr")
      case True
      with w ok Cons.IH[OF rest, of "acc @ ps"] show ?thesis by simp
    next
      case False
      with Cons.IH[OF rest, of "acc @ [curr]"] show ?thesis by simp
    qed
  qed
qed

lemma one_mask_many_stars:
  "sum_list (map (count_char CHR ''*'') paths) > 1 \<Longrightarrow>
   length (filter (\<lambda>p. CHR ''*'' \<in> set p) paths) \<le> 1 \<Longrightarrow>
   \<exists>p \<in> set paths. count_char CHR ''*'' p > 1"
proof (induction paths)
  case Nil
  then show ?case by simp
next
  case (Cons p ps)
  show ?case
  proof (cases "count_char CHR ''*'' p > 1")
    case True
    then show ?thesis by simp
  next
    case False
    show ?thesis
    proof (cases "CHR ''*'' \<in> set p")
      case True
      with Cons.prems(2) have "filter (\<lambda>p. CHR ''*'' \<in> set p) ps = []" by simp
      then have "\<forall>q \<in> set ps. CHR ''*'' \<notin> set q" by (simp add: filter_empty_conv)
      then have "\<forall>q \<in> set ps. count_char CHR ''*'' q = 0" by (simp add: count_char_zero_iff)
      then have "sum_list (map (count_char CHR ''*'') ps) = 0" by simp
      with Cons.prems(1) False show ?thesis by simp
    next
      case False
      then have z: "count_char CHR ''*'' p = 0" by (simp add: count_char_zero_iff)
      with Cons.prems False have "\<exists>q \<in> set ps. count_char CHR ''*'' q > 1"
        by (intro Cons.IH) auto
      then show ?thesis by auto
    qed
  qed
qed

text \<open>
  Claim C8.  In write mode, when the input templates hold more than one \<open>*\<close> character
  between them, the expansion raises a \<open>ValueError\<close>: at the first check when two or more
  templates hold one, and from the write-mode expansion of the one template that holds
  two or more otherwise.  The write-mode expansion of a single template raises it
  whenever the template holds more than one.
\<close>

theorem write_mode_rejects_second_placeholder:
  assumes "CHR ''w'' \<in> set mode"
      and "sum_list (map (count_char CHR ''*'') paths) > 1"
  shows "(\<exists>msg. expand_paths_if_needed bnf glob paths mode num nf = Inl (ValueError msg)) \<and>
         (\<forall>p. count_char CHR ''*'' p > 1 \<longrightarrow>
              (\<exists>msg. expand_paths bnf (PathStr p) nf num = Inl (ValueError msg)))"
proof
  show "\<exists>msg. expand_paths_if_needed bnf glob paths mode num nf = Inl (ValueError msg)"
  proof (cases "length (filter (\<lambda>p. CHR ''*'' \<in> set p) paths) > 1")
    case True
    with assms(1) show ?thesis by (simp add: expand_paths_if_needed_def)
  next
    case False
    then have "length (filter (\<lambda>p. CHR ''*'' \<in> set p) paths) \<le> 1" by simp
    from one_mask_many_stars[OF assms(2) this]
    have "\<exists>p \<in> set paths. count_char CHR ''*'' p > 1" .
    from expand_loop_two_stars[OF assms(1) this]
    obtain msg where
      "expand_loop bnf glob mode nf (max num (int (length paths))) paths [] = Inl (ValueError msg)"
      by blast
    with assms(1) False show ?thesis by (simp add: expand_paths_if_needed_def)
  qed
next
  show "\<forall>p. count_char CHR ''*'' p > 1 \<longrightarrow>
              (\<exists>msg. expand_paths bnf (PathStr p) nf num = Inl (ValueError msg))"
    by (simp add: expand_paths_str_error)
qed

theorem write_mode_rejects_second_placeholder_witness:
  "CHR ''w'' \<in> set ''wb'' \<and>
   sum_list (map (count_char CHR ''*'') [''a*.csv'', ''b*.csv'']) > 1 \<and>
   (\<exists>msg. expand_paths_if_needed index_names no_glob [''a*.csv'', ''b*.csv''] ''wb'' 2 None
            = Inl (ValueError msg)) \<and>
   sum_list (map (count_char CHR ''*'') [''part-*-*.csv'']) > 1 \<and>
   (\<exists>msg. expand_paths_if_needed index_names no_glob [''part-*-*.csv''] ''wb'' 2 None
            = Inl (ValueError msg)) \<and>
   (\<exists>msg. expand_paths index_names (PathStr ''part-*-*.csv'') None 2 = Inl (ValueError msg))"
proof -
  have h: "CHR ''w'' \<in> set ''wb''" by simp
  have c2: "sum_list (map (count_char CHR ''*'') [''a*.csv'', ''b*.csv'']) > 1"
    by (simp add: count_char_def)
  have c1: "sum_list (map (count_char CHR ''*'') [''part-*-*.csv'']) > 1"
    by (simp add: count_char_def)
  have c0: "count_char CHR ''*'' ''part-*-*.csv'' > 1"
    by (simp add: count_char_def)
  note t2 = write_mode_rejects_second_placeholder[OF h c2, of index_names no_glob 2 None]
  note t1 = write_mode_rejects_second_placeholder[OF h c1, of index_names no_glob 2 None]
  from t2 have r2: "\<exists>msg. expand_paths_if_needed index_names no_glob [''a*.csv'', ''b*.csv''] ''wb'' 2 None
            = Inl (ValueError msg)" by (rule conjunct1)
  from t1 have r1: "\<exists>msg. expand_paths_if_needed index_names no_glob [''part-*-*.csv''] ''wb'' 2 None
            = Inl (ValueError msg)" by (rule conjunct1)
  from t1 c0 have r0: "\<exists>msg. expand_paths index_names (PathStr ''part-*-*.csv'') None 2
            = Inl (ValueError msg)" by blast
  from h c2 r2 c1 r1 r0 show ?thesis by blast
qed

lemma upto_map_cong: "(\<And>i. 0 \<le> i \<Longrightarrow> i < n \<Longrightarrow> f i = g i) \<Longrightarrow> map f [0..n - 1] = map g [0..n - 1]"
  by (rule map_cong) auto

lemma replace_char_absent: "c \<notin> set s \<Longrightarrow> replace_char c new s = s"
  by (induction s) (auto simp: replace_char_def)

lemma replace_char_append: "replace_char c new (s @ t) = replace_char c new s @ replace_char c new t"
  by (simp add: replace_char_def)

lemma replace_star_part: "replace_char CHR ''*'' new ''*.part'' = new @ ''.part''"
  by (simp add: replace_char_def)

lemma path_join_part: "path_join t ''*.part'' = path_join t [] @ ''*.part''"
  by (simp add: path_join_def)

lemma path_join_no_star: "CHR ''*'' \<notin> set t \<Longrightarrow> CHR ''*'' \<notin> set (path_join t [])"
  by (simp add: path_join_def)

lemma path_join_relative: "take 1 b \<noteq> ''/'' \<Longrightarrow> path_join t b = path_join t [] @ b"
  by (simp add: path_join_def)

text \<open>
  Claim C10, as amended.  For a template without \<open>*\<close>, a count \<open>n\<close> and a name function
  \<open>g\<close>, the write-mode expansion succeeds with the \<open>n\<close> paths made of the directory
  prefix (the template, followed by a separator unless it is empty or ends with one),
  the name \<open>g i\<close> and \<open>.part\<close>, for \<open>i\<close> from \<open>0\<close> to \<open>n - 1\<close> in this order.  When no
  name starts with the separator, these are the paths that joining the template with
  \<open>g i\<close> followed by \<open>.part\<close> gives.
\<close>

theorem expand_paths_directory_template:
  assumes "CHR ''*'' \<notin> set template"
  shows "expand_paths bnf (PathStr template) (Some g) n =
           Inr (map (\<lambda>i. path_join template [] @ g i @ ''.part'') [0..n - 1]) \<and>
         ((\<forall>i. 0 \<le> i \<and> i < n \<longrightarrow> take 1 (g i) \<noteq> ''/'') \<longrightarrow>
          expand_paths bnf (PathStr template) (Some g) n =
            Inr (map (\<lambda>i. path_join template (g i @ ''.part'')) [0..n - 1]))"
proof -
  have c: "count_char CHR ''*'' template = 0" using assms by (simp add: count_char_zero_iff)
  have r: "\<And>i. replace_char CHR ''*'' (g i) (path_join template ''*.part'')
             = path_join template [] @ g i @ ''.part''"
    using replace_char_absent[OF path_join_no_star[OF assms]]
    by (simp add: path_join_part replace_char_append replace_star_part)
  have main: "expand_paths bnf (PathStr template) (Some g) n =
           Inr (map (\<lambda>i. path_join template [] @ g i @ ''.part'') [0..n - 1])"
    using assms c by (simp add: expand_paths_def r)
  have "map (\<lambda>i. path_join template [] @ g i @ ''.part'') [0..n - 1]
        = map (\<lambda>i. path_join template (g i @ ''.part'')) [0..n - 1]"
    if "\<forall>i. 0 \<le> i \<and> i < n \<longrightarrow> take 1 (g i) \<noteq> ''/''"
  proof (rule upto_map_cong)
    fix i :: int assume "0 \<le> i" "i < n"
    with that have "take 1 (g i) \<noteq> ''/''" by blast
    then have "take 1 (g i @ ''.part'') \<noteq> ''/''" by (cases "g i") auto
    from path_join_relative[OF this]
    show "path_join template [] @ g i @ ''.part'' = path_join template (g i @ ''.part'')" by simp
  qed
  with main show ?thesis by simp
qed

theorem expand_paths_directory_template_witness:
  "CHR ''*'' \<notin> set ''out'' \<and>
   expand_paths index_names (PathStr ''out'') (Some (index_names 2)) 3 =
     Inr [''out/0.part'', ''out/1.part'', ''out/2.part''] \<and>
   map (\<lambda>i. path_join ''out'' (index_names 2 i @ ''.part'')) [0..3 - 1] =
     [''out/0.part'', ''out/1.part'', ''out/2.part'']"
proof -
  have h: "CHR ''*'' \<notin> set ''out''" by simp
  have e: "map (\<lambda>i. path_join ''out'' [] @ index_names 2 i @ ''.part'') [0..3 - 1] =
             [''out/0.part'', ''out/1.part'', ''out/2.part'']"
    by code_simp
  have j: "map (\<lambda>i. path_join ''out'' (index_names 2 i @ ''.part'')) [0..3 - 1] =
             [''out/0.part'', ''out/1.part'', ''out/2.part'']"
    by code_simp
  from expand_paths_directory_template[OF h, of index_names "index_names 2" 3] e j h
  show ?thesis by simp
qed

text \<open>
  The claim as first stated takes the result to be the joins of the template with each
  name.  A name that starts with the separator makes the join drop the template, while
  the expansion keeps it: for the template \<open>out\<close> and the name \<open>/x\<close> the expansion gives
  \<open>out//x.part\<close> and the join \<open>/x.part\<close>.
\<close>

theorem expand_paths_rooted_name_counterexample:
  "CHR ''*'' \<notin> set ''out'' \<and>
   expand_paths index_names (PathStr ''out'') (Some rooted_name) 1 = Inr [''out//x.part''] \<and>
   path_join ''out'' (rooted_name 0 @ ''.part'') = ''/x.part''"
  by code_simp

text \<open>
  Claim C9, as amended.  In write mode the bound is the larger of the requested count
  and the number of input paths.  Whenever the expansion succeeds, its result is what
  the substitution loop produced, cut to the bound: a shorter or equal list is returned
  as it is, without padding, and a longer one is cut to exactly the bound, keeping the
  earliest entries.
\<close>

theorem write_truncation:
  assumes "CHR ''w'' \<in> set mode"
      and "expand_paths_if_needed bnf glob paths mode num nf = Inr result"
  shows "\<exists>expanded.
           expand_loop bnf glob mode nf (max num (int (length paths))) paths [] = Inr expanded \<and>
           result = take (nat (max num (int (length paths)))) expanded \<and>
           (int (length expanded) \<le> max num (int (length paths)) \<longrightarrow> result = expanded) \<and>
           (int (length expanded) > max num (int (length paths)) \<longrightarrow>
              int (length result) = max num (int (length paths)))"
proof -
  let ?n = "max num (int (length paths))"
  from assms obtain expanded where
    l: "expand_loop bnf glob mode nf ?n paths [] = Inr expanded"
    by (auto simp: expand_paths_if_needed_def Let_def split: if_splits sum.splits)
  with assms have r: "result = (if int (length expanded) > ?n then take (nat ?n) expanded else expanded)"
    by (auto simp: expand_paths_if_needed_def Let_def split: if_splits)
  have "0 \<le> ?n" by simp
  with r have "result = take (nat ?n) expanded" by auto
  moreover from r have "int (length expanded) \<le> ?n \<longrightarrow> result = expanded" by simp
  moreover from r \<open>0 \<le> ?n\<close> have "int (length expanded) > ?n \<longrightarrow> int (length result) = ?n"
    by auto
  ultimately show ?thesis using l by blast
qed

theorem write_truncation_witness:
  "CHR ''w'' \<in> set ''wb'' \<and>
   expand_loop index_names no_glob ''wb'' None (max 2 (int (length [''a*'', ''b''])))
     [''a*'', ''b''] [] = Inr [''a0'', ''a1'', ''b''] \<and>
   expand_paths_if_needed index_names no_glob [''a*'', ''b''] ''wb'' 2 None = Inr [''a0'', ''a1'']"
proof -
  have h: "CHR ''w'' \<in> set ''wb''" by simp
  have r: "expand_paths_if_needed index_names no_glob [''a*'', ''b''] ''wb'' 2 None
             = Inr [''a0'', ''a1'']"
    by code_simp
  have l: "expand_loop index_names no_glob ''wb'' None (max 2 (int (length [''a*'', ''b''])))
     [''a*'', ''b''] [] = Inr [''a0'', ''a1'', ''b'']"
    by code_simp
  from write_truncation[OF h r] l h r show ?thesis by simp
qed

text \<open>
  The claim as first stated cuts the result to the requested count.  For two plain
  paths and a requested count of one, the loop produces two paths, more than requested,
  and both are returned.
\<close>

theorem write_truncation_counterexample:
  "CHR ''w'' \<in> set ''wb'' \<and>
   expand_loop index_names no_glob ''wb'' None (max 1 (int (length [''a'', ''b''])))
     [''a'', ''b''] [] = Inr [''a'', ''b''] \<and>
   expand_paths_if_needed index_names no_glob [''a'', ''b''] ''wb'' 1 None = Inr [''a'', ''b'']"
  by code_simp

section \<open>Properties of the resolution of path lists\<close>

lemma un_chain_str_plain: "\<not> contains ''::'' u \<Longrightarrow> un_chain_str R u kwargs = Inr []"
  by (simp add: un_chain_str_def)

lemma not_all_same:
  "us \<noteq> [] \<Longrightarrow>
   (\<not> list_all (\<lambda>p. p = hd (map f us)) (map f us)) = (\<exists>u \<in> set us. f u \<noteq> f (hd us))"
  by (auto simp: list_all_iff hd_map)

lemma resolve_seq_protocol_mismatch:
  assumes "\<not> list_all (\<lambda>p. p = hd (map (\<lambda>u. fst (split_protocol u)) us))
                (map (\<lambda>u. fst (split_protocol u)) us)"
  shows "resolve_seq R us so None =
          ([], Inl (ValueError
             ''When specifying a list of paths, all paths must share the same protocol''))"
  unfolding resolve_seq_def Let_def using assms by simp

lemma resolve_seq_options_mismatch:
  assumes "protocol = None \<longrightarrow> list_all (\<lambda>p. p = hd (map (\<lambda>u. fst (split_protocol u)) us))
                (map (\<lambda>u. fst (split_protocol u)) us)"
      and "get_filesystem_class R
             (if protocol = None then hd (map (\<lambda>u. fst (split_protocol u)) us) else protocol) = Inr cls"
      and "\<not> list_all (\<lambda>opt. opt = hd (map (get_kwargs_from_urls R cls) us))
                   (map (get_kwargs_from_urls R cls) us)"
  shows "resolve_seq R us so protocol =
          ([], Inl (ValueError
             ''When specifying a list of paths, all paths must share the same file-system options''))"
proof (cases protocol)
  case None
  with assms show ?thesis unfolding resolve_seq_def Let_def by simp
next
  case (Some p)
  with assms show ?thesis unfolding resolve_seq_def Let_def by simp
qed

lemma collect_Inr: "collect rs = Inr xs \<Longrightarrow> rs = map Inr xs"
proof (induction rs arbitrary: xs rule: collect.induct)
  case 1
  then show ?case by simp
next
  case (2 e rs)
  then show ?case by simp
next
  case (3 x rs)
  then show ?case by (cases "collect rs") auto
qed

lemma collect_rows:
  assumes "collect (map f us) = Inr rows"
  shows "length rows = length us" and "u \<in> set us \<Longrightarrow> f u = Inr r \<Longrightarrow> r \<in> set rows"
proof -
  from collect_Inr[OF assms] have m: "map f us = map Inr rows" .
  then show "length rows = length us" by (metis length_map)
  assume "u \<in> set us" and "f u = Inr r"
  then have "Inr r \<in> set (map f us)" by force
  then show "r \<in> set rows" unfolding m by auto
qed

lemma foldr_min_less: "(i < foldr min ns (n::nat)) = (\<forall>k \<in> set (n # ns). i < k)"
  by (induction ns) auto

lemma zip_star_short_row: "[] \<in> set rows \<Longrightarrow> zip_star rows = []"
proof (cases rows)
  case Nil
  then show ?thesis by (simp add: zip_star_def)
next
  case (Cons r rs)
  assume "[] \<in> set rows"
  with Cons have "\<not> (0 < foldr min (map length rs) (length r))"
    unfolding foldr_min_less by auto
  with Cons show ?thesis by (simp add: zip_star_def)
qed

lemma zip_star_column:
  assumes "rows \<noteq> []" and "\<forall>row \<in> set rows. i < length row"
  shows "map (\<lambda>row. row ! i) rows \<in> set (zip_star rows)"
proof -
  from assms(1) obtain r rs where c: "rows = r # rs" by (cases rows) auto
  with assms(2) have "i < foldr min (map length rs) (length r)"
    unfolding foldr_min_less by auto
  with c show ?thesis by (auto simp: zip_star_def)
qed

lemma two_values_remdups:
  assumes "x \<in> set xs" and "y \<in> set xs" and "x \<noteq> y"
  shows "1 < length (remdups xs)"
proof -
  from assms have "{x, y} \<subseteq> set xs" by simp
  then have "card {x, y} \<le> card (set xs)" by (intro card_mono) auto
  with assms(3) show ?thesis by (simp add: length_remdups_card_conv)
qed

lemma un_chain_columns_mismatch:
  "\<exists>col \<in> set cols. 1 < length (remdups (map (\<lambda>e. fst (snd e)) col)) \<Longrightarrow>
     un_chain_columns cols = Inl (ValueError ''Protocol mismatch in URL chain'')"
proof (induction cols)
  case Nil
  then show ?case by simp
next
  case (Cons c cols)
  show ?case
  proof (cases "1 < length (remdups (map (\<lambda>e. fst (snd e)) c))")
    case True
    then show ?thesis by (simp add: Let_def)
  next
    case False
    with Cons.prems have "\<exists>col \<in> set cols. 1 < length (remdups (map (\<lambda>e. fst (snd e)) col))"
      by auto
    from Cons.IH[OF this] False show ?thesis by (simp add: Let_def)
  qed
qed

lemma un_chain_seq_mismatch:
  assumes "collect (map (\<lambda>u. un_chain_str R u kwargs) us) = Inr rows"
      and "\<forall>row \<in> set rows. i < length row"
      and "a \<in> set rows" and "b \<in> set rows" and "fst (snd (a ! i)) \<noteq> fst (snd (b ! i))"
  shows "un_chain_seq R us kwargs = Inl (ValueError ''Protocol mismatch in URL chain'')"
proof -
  from assms(3) have ne: "rows \<noteq> []" by auto
  let ?col = "map (\<lambda>row. row ! i) rows"
  from zip_star_column[OF ne assms(2)] have c: "?col \<in> set (zip_star rows)" .
  have pa: "fst (snd (a ! i)) \<in> set (map (\<lambda>e. fst (snd e)) ?col)"
    using assms(3) by (auto simp: image_iff)
  have pb: "fst (snd (b ! i)) \<in> set (map (\<lambda>e. fst (snd e)) ?col)"
    using assms(4) by (auto simp: image_iff)
  from two_values_remdups[OF pa pb assms(5)] c
  have "\<exists>col \<in> set (zip_star rows). 1 < length (remdups (map (\<lambda>e. fst (snd e)) col))"
    by blast
  from un_chain_columns_mismatch[OF this] assms(1) show ?thesis
    by (simp add: un_chain_seq_def)
qed

lemma un_chain_seq_unchained:
  assumes "collect (map (\<lambda>u. un_chain_str R u kwargs) us) = Inr rows"
      and "u \<in> set us" and "\<not> contains ''::'' u"
  shows "un_chain_seq R us kwargs = Inr []"
proof -
  from un_chain_str_plain[OF assms(3)] have "un_chain_str R u kwargs = Inr []" .
  from collect_rows(2)[OF assms(1) assms(2) this] have "[] \<in> set rows" .
  from zip_star_short_row[OF this] assms(1) show ?thesis
    by (simp add: un_chain_seq_def)
qed

lemma unchained_list_resolution:
  assumes "us \<noteq> []"
      and "collect (map (\<lambda>u. un_chain_str R u (case so of None \<Rightarrow> empty_dict R | Some d \<Rightarrow> d)) us)
             = Inr rows"
      and "\<exists>u \<in> set us. \<not> contains ''::'' u"
      and "resolve_seq R us so protocol = (made, Inl e)"
  shows "get_fs_token_paths R (UrlSeq us) mode num nf so protocol expand = (made, Inl e)"
proof -
  from assms(3) obtain u where u: "u \<in> set us" "\<not> contains ''::'' u" by blast
  from un_chain_seq_unchained[OF assms(2) u]
  have "un_chain_seq R us (case so of None \<Rightarrow> empty_dict R | Some d \<Rightarrow> d) = Inr []" .
  with assms(1) assms(4) show ?thesis by (simp add: get_fs_token_paths_def)
qed

lemma chained_list_mismatch:
  assumes "us \<noteq> []"
      and "un_chain_seq R us (case so of None \<Rightarrow> empty_dict R | Some d \<Rightarrow> d) = Inl e"
  shows "get_fs_token_paths R (UrlSeq us) mode num nf so protocol expand = ([], Inl e)"
  using assms by (simp add: get_fs_token_paths_def)

text \<open>
  Claim C7, as amended.  Take a non-empty list of paths each of which \<^verbatim>\<open>_un_chain\<close>
  parses without an exception, \<open>rows\<close> being the chains it returns for them (the list
  \<^verbatim>\<open>bits\<close> of the source; the chain of a path without \<open>::\<close> is empty).
  \<^item> When two of the chains name different protocols at a level \<open>i\<close> that every chain
    has, resolution raises \<^verbatim>\<open>Protocol mismatch in URL chain\<close>, with or without a protocol
    override.
  \<^item> When some path is not a chain, no protocol override is given and some path's
    protocol, as \<open>split_protocol\<close> finds it, differs from the first path's, resolution
    raises the protocol-mismatch error of the list branch.
  \<^item> When some path is not a chain, the protocols agree or an override is given, the
    class lookup succeeds, and some path's URL-derived options differ from the first
    path's, resolution raises the options-mismatch error.
  In all three cases no filesystem object has been created.
\<close>

theorem list_resolution_fails_before_instantiation:
  assumes "urlpath \<noteq> []"
      and "collect (map (\<lambda>u. un_chain_str R u
                                (case so of None \<Rightarrow> empty_dict R | Some d \<Rightarrow> d)) urlpath)
             = Inr rows"
  shows "((\<forall>row \<in> set rows. i < length row) \<and>
          (\<exists>a \<in> set rows. \<exists>b \<in> set rows. fst (snd (a ! i)) \<noteq> fst (snd (b ! i))) \<longrightarrow>
            get_fs_token_paths R (UrlSeq urlpath) mode num nf so protocol expand =
              ([], Inl (ValueError ''Protocol mismatch in URL chain''))) \<and>
         ((\<exists>u \<in> set urlpath. \<not> contains ''::'' u) \<and> protocol = None \<and>
          (\<exists>u \<in> set urlpath. fst (split_protocol u) \<noteq> fst (split_protocol (hd urlpath))) \<longrightarrow>
            get_fs_token_paths R (UrlSeq urlpath) mode num nf so protocol expand =
              ([], Inl (ValueError
                 ''When specifying a list of paths, all paths must share the same protocol''))) \<and>
         ((\<exists>u \<in> set urlpath. \<not> contains ''::'' u) \<and>
          (protocol \<noteq> None \<or>
           (\<forall>u \<in> set urlpath. fst (split_protocol u) = fst (split_protocol (hd urlpath)))) \<and>
          get_filesystem_class R
            (if protocol = None then fst (split_protocol (hd urlpath)) else protocol) = Inr cls \<and>
          (\<exists>u \<in> set urlpath. get_kwargs_from_urls R cls u \<noteq> get_kwargs_from_urls R cls (hd urlpath))
          \<longrightarrow>
            get_fs_token_paths R (UrlSeq urlpath) mode num nf so protocol expand =
              ([], Inl (ValueError
                 ''When specifying a list of paths, all paths must share the same file-system options'')))"
proof (intro conjI impI)
  assume a: "(\<forall>row \<in> set rows. i < length row) \<and>
          (\<exists>a \<in> set rows. \<exists>b \<in> set rows. fst (snd (a ! i)) \<noteq> fst (snd (b ! i)))"
  then have l: "\<forall>row \<in> set rows. i < length row" by (rule conjunct1)
  from a obtain x y where xy: "x \<in> set rows" "y \<in> set rows"
      "fst (snd (x ! i)) \<noteq> fst (snd (y ! i))"
    by blast
  from un_chain_seq_mismatch[OF assms(2) l xy]
  have "un_chain_seq R urlpath (case so of None \<Rightarrow> empty_dict R | Some d \<Rightarrow> d) =
          Inl (ValueError ''Protocol mismatch in URL chain'')" .
  from chained_list_mismatch[OF assms(1) this]
  show "get_fs_token_paths R (UrlSeq urlpath) mode num nf so protocol expand =
              ([], Inl (ValueError ''Protocol mismatch in URL chain''))" .
next
  assume a: "(\<exists>u \<in> set urlpath. \<not> contains ''::'' u) \<and> protocol = None \<and>
          (\<exists>u \<in> set urlpath. fst (split_protocol u) \<noteq> fst (split_protocol (hd urlpath)))"
  then have u: "\<exists>u \<in> set urlpath. \<not> contains ''::'' u" by (rule conjunct1)
  from a have p: "protocol = None" by (rule conjunct2[THEN conjunct1])
  from a have "\<exists>u \<in> set urlpath. fst (split_protocol u) \<noteq> fst (split_protocol (hd urlpath))"
    by (rule conjunct2[THEN conjunct2])
  then have "\<not> list_all (\<lambda>p. p = hd (map (\<lambda>u. fst (split_protocol u)) urlpath))
                (map (\<lambda>u. fst (split_protocol u)) urlpath)"
    by (simp only: not_all_same[OF assms(1)])
  from resolve_seq_protocol_mismatch[OF this, of R so]
  have "resolve_seq R urlpath so protocol =
          ([], Inl (ValueError
             ''When specifying a list of paths, all paths must share the same protocol''))"
    by (simp only: p)
  from unchained_list_resolution[OF assms u this]
  show "get_fs_token_paths R (UrlSeq urlpath) mode num nf so protocol expand =
              ([], Inl (ValueError
                 ''When specifying a list of paths, all paths must share the same protocol''))" .
next
  assume a: "(\<exists>u \<in> set urlpath. \<not> contains ''::'' u) \<and>
          (protocol \<noteq> None \<or>
           (\<forall>u \<in> set urlpath. fst (split_protocol u) = fst (split_protocol (hd urlpath)))) \<and>
          get_filesystem_class R
            (if protocol = None then fst (split_protocol (hd urlpath)) else protocol) = Inr cls \<and>
          (\<exists>u \<in> set urlpath. get_kwargs_from_urls R cls u \<noteq> get_kwargs_from_urls R cls (hd urlpath))"
  then have u: "\<exists>u \<in> set urlpath. \<not> contains ''::'' u" by (rule conjunct1)
  from a have a1: "protocol \<noteq> None \<or>
           (\<forall>u \<in> set urlpath. fst (split_protocol u) = fst (split_protocol (hd urlpath)))"
    by (rule conjunct2[THEN conjunct1])
  from a have a2: "get_filesystem_class R
            (if protocol = None then fst (split_protocol (hd urlpath)) else protocol) = Inr cls"
    by (rule conjunct2[THEN conjunct2, THEN conjunct1])
  from a have a3: "\<exists>u \<in> set urlpath. get_kwargs_from_urls R cls u \<noteq> get_kwargs_from_urls R cls (hd urlpath)"
    by (rule conjunct2[THEN conjunct2, THEN conjunct2])
  have h: "hd (map (\<lambda>u. fst (split_protocol u)) urlpath) = fst (split_protocol (hd urlpath))"
    using assms(1) by (simp add: hd_map)
  from a1 have 1: "protocol = None \<longrightarrow>
       list_all (\<lambda>p. p = hd (map (\<lambda>u. fst (split_protocol u)) urlpath))
                (map (\<lambda>u. fst (split_protocol u)) urlpath)"
    using not_all_same[OF assms(1), of "\<lambda>u. fst (split_protocol u)"] by blast
  from a2 have 2: "get_filesystem_class R
             (if protocol = None then hd (map (\<lambda>u. fst (split_protocol u)) urlpath) else protocol)
           = Inr cls"
    by (simp only: h)
  from a3 have 3: "\<not> list_all (\<lambda>opt. opt = hd (map (get_kwargs_from_urls R cls) urlpath))
                   (map (get_kwargs_from_urls R cls) urlpath)"
    by (simp only: not_all_same[OF assms(1)])
  note r = resolve_seq_options_mismatch[OF 1 2 3, of so]
  from unchained_list_resolution[OF assms u r]
  show "get_fs_token_paths R (UrlSeq urlpath) mode num nf so protocol expand =
              ([], Inl (ValueError
                 ''When specifying a list of paths, all paths must share the same file-system options''))" .
qed

theorem list_resolution_fails_before_instantiation_witness:
  "collect (map (\<lambda>u. un_chain_str sample_registry u [])
              [''simplecache::s3://b/a'', ''simplecache::gcs://b/c'']) =
     Inr [[(One (Some ''b/a''), ''simplecache'', []), (One (Some ''b/a''), ''s3'', [])],
          [(One (Some ''b/c''), ''simplecache'', []), (One (Some ''b/c''), ''gcs'', [])]] \<and>
   get_fs_token_paths sample_registry
       (UrlSeq [''simplecache::s3://b/a'', ''simplecache::gcs://b/c''])
       ''rb'' 1 None None None True =
     ([], Inl (ValueError ''Protocol mismatch in URL chain'')) \<and>
   get_fs_token_paths sample_registry
       (UrlSeq [''simplecache::s3://b/a'', ''simplecache::gcs://b/c''])
       ''rb'' 1 None None (Some ''s3'') True =
     ([], Inl (ValueError ''Protocol mismatch in URL chain'')) \<and>
   \<not> contains ''::'' ''s3://bucket/a'' \<and>
   get_fs_token_paths sample_registry (UrlSeq [''s3://bucket/a'', ''gcs://bucket/b''])
       ''rb'' 1 None None None True =
     ([], Inl (ValueError
        ''When specifying a list of paths, all paths must share the same protocol'')) \<and>
   \<not> contains ''::'' ''s3://b/c'' \<and>
   get_fs_token_paths sample_registry (UrlSeq [''simplecache::s3://b/a'', ''s3://b/c''])
       ''rb'' 1 None None None True =
     ([], Inl (ValueError
        ''When specifying a list of paths, all paths must share the same protocol'')) \<and>
   \<not> contains ''::'' ''ftp://h1/a'' \<and>
   get_filesystem_class sample_registry (Some ''ftp'') = Inr ''ftp'' \<and>
   get_fs_token_paths sample_registry (UrlSeq [''ftp://h1/a'', ''ftp://h2/b''])
       ''rb'' 1 None None None True =
     ([], Inl (ValueError
        ''When specifying a list of paths, all paths must share the same file-system options'')) \<and>
   \<not> contains ''::'' ''ftp://h2/b'' \<and>
   get_fs_token_paths sample_registry (UrlSeq [''simplecache::ftp://h1/a'', ''ftp://h2/b''])
       ''rb'' 1 None None (Some ''ftp'') True =
     ([], Inl (ValueError
        ''When specifying a list of paths, all paths must share the same file-system options''))"
proof -
  have kw: "(case (None :: (string \<times> sval) list option) of
               None \<Rightarrow> empty_dict sample_registry | Some d \<Rightarrow> d) = []"
    by (simp add: sample_registry_def)
  have c1: "collect (map (\<lambda>u. un_chain_str sample_registry u [])
              [''simplecache::s3://b/a'', ''simplecache::gcs://b/c'']) =
     Inr [[(One (Some ''b/a''), ''simplecache'', []), (One (Some ''b/a''), ''s3'', [])],
          [(One (Some ''b/c''), ''simplecache'', []), (One (Some ''b/c''), ''gcs'', [])]]"
    by code_simp
  have c1k: "collect (map (\<lambda>u. un_chain_str sample_registry u
                (case (None :: (string \<times> sval) list option) of
                   None \<Rightarrow> empty_dict sample_registry | Some d \<Rightarrow> d))
              [''simplecache::s3://b/a'', ''simplecache::gcs://b/c'']) =
     Inr [[(One (Some ''b/a''), ''simplecache'', []), (One (Some ''b/a''), ''s3'', [])],
          [(One (Some ''b/c''), ''simplecache'', []), (One (Some ''b/c''), ''gcs'', [])]]"
    by (simp only: kw c1)
  have n1: "[''simplecache::s3://b/a'', ''simplecache::gcs://b/c''] \<noteq> []" by simp
  have l1: "\<forall>row \<in> set [[(One (Some ''b/a''), ''simplecache'', ([] :: (string \<times> sval) list)),
                            (One (Some ''b/a''), ''s3'', [])],
                           [(One (Some ''b/c''), ''simplecache'', []),
                            (One (Some ''b/c''), ''gcs'', [])]]. 1 < length row"
    by simp
  have d1: "\<exists>a \<in> set [[(One (Some ''b/a''), ''simplecache'', ([] :: (string \<times> sval) list)),
                          (One (Some ''b/a''), ''s3'', [])],
                         [(One (Some ''b/c''), ''simplecache'', []),
                          (One (Some ''b/c''), ''gcs'', [])]].
            \<exists>b \<in> set [[(One (Some ''b/a''), ''simplecache'', ([] :: (string \<times> sval) list)),
                          (One (Some ''b/a''), ''s3'', [])],
                         [(One (Some ''b/c''), ''simplecache'', []),
                          (One (Some ''b/c''), ''gcs'', [])]].
              fst (snd (a ! 1)) \<noteq> fst (snd (b ! 1))"
    by simp blast
  note t1 = list_resolution_fails_before_instantiation[OF n1 c1k,
              where i = 1 and mode = "''rb''" and num = 1 and nf = None and expand = True]
  from t1[where protocol = None] l1 d1
  have r1: "get_fs_token_paths sample_registry
       (UrlSeq [''simplecache::s3://b/a'', ''simplecache::gcs://b/c''])
       ''rb'' 1 None None None True =
     ([], Inl (ValueError ''Protocol mismatch in URL chain''))"
    by blast
  from t1[where protocol = "Some ''s3''"] l1 d1
  have r1': "get_fs_token_paths sample_registry
       (UrlSeq [''simplecache::s3://b/a'', ''simplecache::gcs://b/c''])
       ''rb'' 1 None None (Some ''s3'') True =
     ([], Inl (ValueError ''Protocol mismatch in URL chain''))"
    by blast
  have c2: "collect (map (\<lambda>u. un_chain_str sample_registry u [])
              [''s3://bucket/a'', ''gcs://bucket/b'']) = Inr [[], []]"
    by code_simp
  have c2k: "collect (map (\<lambda>u. un_chain_str sample_registry u
                (case (None :: (string \<times> sval) list option) of
                   None \<Rightarrow> empty_dict sample_registry | Some d \<Rightarrow> d))
              [''s3://bucket/a'', ''gcs://bucket/b'']) = Inr [[], []]"
    by (simp only: kw c2)
  have n2: "[''s3://bucket/a'', ''gcs://bucket/b''] \<noteq> []" by simp
  have q2: "\<not> contains ''::'' ''s3://bucket/a''" by simp
  then have u2: "\<exists>u \<in> set [''s3://bucket/a'', ''gcs://bucket/b'']. \<not> contains ''::'' u" by simp
  have d2: "\<exists>u \<in> set [''s3://bucket/a'', ''gcs://bucket/b''].
              fst (split_protocol u) \<noteq> fst (split_protocol (hd [''s3://bucket/a'', ''gcs://bucket/b'']))"
    by (simp add: split_protocol_def)
  from list_resolution_fails_before_instantiation[OF n2 c2k, where protocol = None
         and mode = "''rb''" and num = 1 and nf = None and expand = True] u2 d2
  have r2: "get_fs_token_paths sample_registry (UrlSeq [''s3://bucket/a'', ''gcs://bucket/b''])
       ''rb'' 1 None None None True =
     ([], Inl (ValueError
        ''When specifying a list of paths, all paths must share the same protocol''))"
    by blast
  have c3: "collect (map (\<lambda>u. un_chain_str sample_registry u [])
              [''simplecache::s3://b/a'', ''s3://b/c'']) =
     Inr [[(One (Some ''b/a''), ''simplecache'', []), (One (Some ''b/a''), ''s3'', [])], []]"
    by code_simp
  have c3k: "collect (map (\<lambda>u. un_chain_str sample_registry u
                (case (None :: (string \<times> sval) list option) of
                   None \<Rightarrow> empty_dict sample_registry | Some d \<Rightarrow> d))
              [''simplecache::s3://b/a'', ''s3://b/c'']) =
     Inr [[(One (Some ''b/a''), ''simplecache'', []), (One (Some ''b/a''), ''s3'', [])], []]"
    by (simp only: kw c3)
  have n3: "[''simplecache::s3://b/a'', ''s3://b/c''] \<noteq> []" by simp
  have q3: "\<not> contains ''::'' ''s3://b/c''" by simp
  then have u3: "\<exists>u \<in> set [''simplecache::s3://b/a'', ''s3://b/c'']. \<not> contains ''::'' u" by simp
  have d3: "\<exists>u \<in> set [''simplecache::s3://b/a'', ''s3://b/c''].
              fst (split_protocol u) \<noteq> fst (split_protocol (hd [''simplecache::s3://b/a'', ''s3://b/c'']))"
    by (simp add: split_protocol_def)
  from list_resolution_fails_before_instantiation[OF n3 c3k, where protocol = None
         and mode = "''rb''" and num = 1 and nf = None and expand = True] u3 d3
  have r3: "get_fs_token_paths sample_registry (UrlSeq [''simplecache::s3://b/a'', ''s3://b/c''])
       ''rb'' 1 None None None True =
     ([], Inl (ValueError
        ''When specifying a list of paths, all paths must share the same protocol''))"
    by blast
  have c4: "collect (map (\<lambda>u. un_chain_str sample_registry u [])
              [''ftp://h1/a'', ''ftp://h2/b'']) = Inr [[], []]"
    by code_simp
  have c4k: "collect (map (\<lambda>u. un_chain_str sample_registry u
                (case (None :: (string \<times> sval) list option) of
                   None \<Rightarrow> empty_dict sample_registry | Some d \<Rightarrow> d))
              [''ftp://h1/a'', ''ftp://h2/b'']) = Inr [[], []]"
    by (simp only: kw c4)
  have n4: "[''ftp://h1/a'', ''ftp://h2/b''] \<noteq> []" by simp
  have q4: "\<not> contains ''::'' ''ftp://h1/a''" by simp
  then have u4: "\<exists>u \<in> set [''ftp://h1/a'', ''ftp://h2/b'']. \<not> contains ''::'' u" by simp
  have s4: "\<forall>u \<in> set [''ftp://h1/a'', ''ftp://h2/b''].
              fst (split_protocol u) = fst (split_protocol (hd [''ftp://h1/a'', ''ftp://h2/b'']))"
    by (simp add: split_protocol_def)
  have k4: "get_filesystem_class sample_registry (Some ''ftp'') = Inr ''ftp''"
    by (simp add: sample_registry_def sample_class_def)
  have k4': "get_filesystem_class sample_registry
              (if (None :: string option) = None
               then fst (split_protocol (hd [''ftp://h1/a'', ''ftp://h2/b''])) else None) = Inr ''ftp''"
    by (simp add: sample_registry_def sample_class_def split_protocol_def)
  have d4: "\<exists>u \<in> set [''ftp://h1/a'', ''ftp://h2/b''].
              get_kwargs_from_urls sample_registry ''ftp'' u \<noteq>
              get_kwargs_from_urls sample_registry ''ftp'' (hd [''ftp://h1/a'', ''ftp://h2/b''])"
    by (simp add: sample_registry_def sample_kwargs_def split_protocol_def)
  from list_resolution_fails_before_instantiation[OF n4 c4k, where protocol = None
         and cls = "''ftp''" and mode = "''rb''" and num = 1 and nf = None and expand = True]
       u4 s4 k4' d4
  have r4: "get_fs_token_paths sample_registry (UrlSeq [''ftp://h1/a'', ''ftp://h2/b''])
       ''rb'' 1 None None None True =
     ([], Inl (ValueError
        ''When specifying a list of paths, all paths must share the same file-system options''))"
    by blast
  have c5: "collect (map (\<lambda>u. un_chain_str sample_registry u [])
              [''simplecache::ftp://h1/a'', ''ftp://h2/b'']) =
     Inr [[(One (Some ''h1/a''), ''simplecache'', []),
           (One (Some ''h1/a''), ''ftp'', [(''host'', SStr ''h1'')])], []]"
    by code_simp
  have c5k: "collect (map (\<lambda>u. un_chain_str sample_registry u
                (case (None :: (string \<times> sval) list option) of
                   None \<Rightarrow> empty_dict sample_registry | Some d \<Rightarrow> d))
              [''simplecache::ftp://h1/a'', ''ftp://h2/b'']) =
     Inr [[(One (Some ''h1/a''), ''simplecache'', []),
           (One (Some ''h1/a''), ''ftp'', [(''host'', SStr ''h1'')])], []]"
    by (simp only: kw c5)
  have n5: "[''simplecache::ftp://h1/a'', ''ftp://h2/b''] \<noteq> []" by simp
  have q5: "\<not> contains ''::'' ''ftp://h2/b''" by simp
  then have u5: "\<exists>u \<in> set [''simplecache::ftp://h1/a'', ''ftp://h2/b'']. \<not> contains ''::'' u"
    by simp
  have p5: "Some ''ftp'' \<noteq> (None :: string option)" by simp
  have k5: "get_filesystem_class sample_registry
              (if Some ''ftp'' = (None :: string option)
               then fst (split_protocol (hd [''simplecache::ftp://h1/a'', ''ftp://h2/b'']))
               else Some ''ftp'') = Inr ''ftp''"
    by (simp add: sample_registry_def sample_class_def)
  have d5: "\<exists>u \<in> set [''simplecache::ftp://h1/a'', ''ftp://h2/b''].
              get_kwargs_from_urls sample_registry ''ftp'' u \<noteq>
              get_kwargs_from_urls sample_registry ''ftp''
                (hd [''simplecache::ftp://h1/a'', ''ftp://h2/b''])"
    by (simp add: sample_registry_def sample_kwargs_def split_protocol_def)
  from list_resolution_fails_before_instantiation[OF n5 c5k,
         where protocol = "Some ''ftp''"
         and cls = "''ftp''" and mode = "''rb''" and num = 1 and nf = None and expand = True]
       u5 p5 k5 d5
  have r5: "get_fs_token_paths sample_registry (UrlSeq [''simplecache::ftp://h1/a'', ''ftp://h2/b''])
       ''rb'' 1 None None (Some ''ftp'') True =
     ([], Inl (ValueError
        ''When specifying a list of paths, all paths must share the same file-system options''))"
    by blast
  from c1 r1 r1' q2 r2 q3 r3 q4 k4 r4 q5 r5 show ?thesis by blast
qed

text \<open>
  The claim as first stated covers every list and every difference.  With the protocol
  override \<open>s3\<close>, the list of an \<open>s3\<close> URL and a \<open>gcs\<close> URL resolves to one \<open>s3\<close>
  filesystem without an error.  The two chained URLs whose \<open>ftp\<close> layers carry different
  hosts, and so different options, resolve to one filesystem built from the options of
  the first.  Of two chains of different lengths only the levels that both have are
  compared: the \<open>gcs\<close> layer that the second chain alone has is dropped without an error.
  And when a chain names a protocol that the registry does not know, the exception is
  the one of the registry lookup, not a mismatch error.
\<close>

theorem list_resolution_override_counterexample:
  "fst (split_protocol ''s3://bucket/a'') = Some ''s3'' \<and>
   fst (split_protocol ''gcs://bucket/b'') = Some ''gcs'' \<and>
   get_fs_token_paths sample_registry (UrlSeq [''s3://bucket/a'', ''gcs://bucket/b''])
       ''rb'' 1 None None (Some ''s3'') True =
     ([(Some ''s3'', [])], Inr ((''s3'', []), (''s3'', []), [''bucket/a'', ''bucket/b''])) \<and>
   sample_kwargs ''ftp'' ''ftp://h1/a'' = [(''host'', SStr ''h1'')] \<and>
   sample_kwargs ''ftp'' ''ftp://h2/b'' = [(''host'', SStr ''h2'')] \<and>
   snd (get_fs_token_paths sample_registry
          (UrlSeq [''simplecache::ftp://h1/a'', ''simplecache::ftp://h2/b''])
          ''rb'' 1 None None None True) =
     Inr ((''simplecache'',
           [(''target_options'', SDict [(''host'', SStr ''h1'')]),
            (''target_protocol'', SStr ''ftp''),
            (''fo'', SUrls (Many [Some ''h1/a'', Some ''h2/b'']))]),
          (''simplecache'',
           [(''target_options'', SDict [(''host'', SStr ''h1'')]),
            (''target_protocol'', SStr ''ftp''),
            (''fo'', SUrls (Many [Some ''h1/a'', Some ''h2/b'']))]),
          [''h1/a'', ''h2/b'']) \<and>
   un_chain_str sample_registry ''simplecache::s3://b/a'' [] =
     Inr [(One (Some ''b/a''), ''simplecache'', []), (One (Some ''b/a''), ''s3'', [])] \<and>
   un_chain_str sample_registry ''simplecache::s3://b/c::gcs://x'' [] =
     Inr [(One (Some ''b/c''), ''simplecache'', []), (One (Some ''b/c''), ''s3'', []),
          (One (Some ''x''), ''gcs'', [])] \<and>
   snd (get_fs_token_paths sample_registry
          (UrlSeq [''simplecache::s3://b/a'', ''simplecache::s3://b/c::gcs://x''])
          ''rb'' 1 None None None True) =
     Inr ((''simplecache'',
           [(''target_options'', SDict []), (''target_protocol'', SStr ''s3''),
            (''fo'', SUrls (Many [Some ''b/a'', Some ''b/c'']))]),
          (''simplecache'',
           [(''target_options'', SDict []), (''target_protocol'', SStr ''s3''),
            (''fo'', SUrls (Many [Some ''b/a'', Some ''b/c'']))]),
          [''b/a'', ''b/c'']) \<and>
   un_chain_str sample_registry ''simplecache::nope://b/c'' [] =
     Inl (ValueError ''Protocol not known: nope'') \<and>
   get_fs_token_paths sample_registry
       (UrlSeq [''simplecache::s3://b/a'', ''simplecache::nope://b/c''])
       ''rb'' 1 None None None True =
     ([], Inl (ValueError ''Protocol not known: nope''))"
  by code_simp

end
